theory Spec2Isabelle
  imports Complex_Main
begin

section \<open>JavaScript strings and numbers\<close>

text \<open>
  Strings are lists of code units below 256, the Latin-1 range of a JavaScript string; text
  with other characters is outside the model. In this range \<open>toLowerCase\<close> maps \<open>A\<close>..\<open>Z\<close>
  and the capitals 192..222 (without the multiplication sign 215) to the letter 32 places
  up, and the white space removed by \<open>trim\<close> (and matched by \<open>\s\<close>) is tab, line
  feed, vertical tab, form feed, carriage return, space and the no-break space 160.
\<close>

definition toLowerChar :: "char \<Rightarrow> char" where
  "toLowerChar c =
     (let n = (of_char c :: nat)
      in if (65 \<le> n \<and> n \<le> 90) \<or> (192 \<le> n \<and> n \<le> 222 \<and> n \<noteq> 215) then char_of (n + 32)
         else c)"

definition toLowerCase :: "string \<Rightarrow> string" where
  "toLowerCase s = map toLowerChar s"

definition isSpace :: "char \<Rightarrow> bool" where
  "isSpace c = (let n = (of_char c :: nat) in (9 \<le> n \<and> n \<le> 13) \<or> n = 32 \<or> n = 160)"

definition trim :: "string \<Rightarrow> string" where
  "trim s = rev (dropWhile isSpace (rev (dropWhile isSpace s)))"

definition startsWith :: "string \<Rightarrow> string \<Rightarrow> bool" where
  "startsWith s t = (take (length t) s = t)"

definition endsWith :: "string \<Rightarrow> string \<Rightarrow> bool" where
  "endsWith s t = (length t \<le> length s \<and> drop (length s - length t) s = t)"

fun str_includes :: "string \<Rightarrow> string \<Rightarrow> bool" where
  "str_includes [] t = (t = [])"
| "str_includes (c # cs) t = (startsWith (c # cs) t \<or> str_includes cs t)"

fun join :: "string \<Rightarrow> string list \<Rightarrow> string" where
  "join sep [] = []"
| "join sep [x] = x"
| "join sep (x # y # ys) = x @ sep @ join sep (y # ys)"

text \<open>
  The decimal digits of a whole number, as a template literal prints it: \<open>`${n}`\<close>.
\<close>

definition digitChar :: "nat \<Rightarrow> char" where
  "digitChar k = char_of (k + 48)"

fun digits :: "nat \<Rightarrow> string" where
  "digits n = (if 10 \<le> n then digits (n div 10) @ [digitChar (n mod 10)] else [digitChar n])"

definition numberToString :: "int \<Rightarrow> string" where
  "numberToString i = (if 0 \<le> i then digits (nat i) else CHR ''-'' # digits (nat (- i)))"

text \<open>
  A computed JavaScript number is a finite value or one of the IEEE 754 specials. Finite values
  are kept exact (rationals); the rounding error of a floating-point quotient and the sign of
  zero are not represented. Division follows IEEE 754 at a zero divisor: \<open>0 / 0\<close> is \<open>NaN\<close>
  and \<open>x / 0\<close> is an infinity. \<open>Math.round\<close> rounds half up and returns \<open>NaN\<close> and the
  infinities unchanged.
\<close>

datatype jsnum = Num rat | NaN | Infinity | NegInfinity

definition js_div :: "rat \<Rightarrow> rat \<Rightarrow> jsnum" where
  "js_div a b =
     (if b = 0 then (if a = 0 then NaN else if 0 < a then Infinity else NegInfinity)
      else Num (a / b))"

fun js_times :: "jsnum \<Rightarrow> rat \<Rightarrow> jsnum" where
  "js_times (Num a) b = Num (a * b)"
| "js_times NaN b = NaN"
| "js_times Infinity b = (if b = 0 then NaN else if 0 < b then Infinity else NegInfinity)"
| "js_times NegInfinity b = (if b = 0 then NaN else if 0 < b then NegInfinity else Infinity)"

fun js_over :: "jsnum \<Rightarrow> rat \<Rightarrow> jsnum" where
  "js_over (Num a) b = js_div a b"
| "js_over NaN b = NaN"
| "js_over Infinity b = (if 0 \<le> b then Infinity else NegInfinity)"
| "js_over NegInfinity b = (if 0 \<le> b then NegInfinity else Infinity)"

fun Math_round :: "jsnum \<Rightarrow> jsnum" where
  "Math_round (Num q) = Num (of_int \<lfloor>q + 1 / 2\<rfloor>)"
| "Math_round NaN = NaN"
| "Math_round Infinity = Infinity"
| "Math_round NegInfinity = NegInfinity"

section \<open>SEO scorer (seo-scorer.js)\<close>

text \<open>
  The feature record read by \<open>calculateScore\<close>. Counts and lengths are whole numbers. A
  missing numeric field reads as \<open>0\<close> through the source's \<open>x || 0\<close>, a missing string as
  the empty string and a missing flag as \<open>False\<close>; only \<open>headingScore\<close> is tested against
  \<open>undefined\<close>, so it is optional here.
\<close>

record seoData =
  title :: string
  titleLength :: int
  description :: string
  descriptionLength :: int
  headingScore :: "int option"
  h1Count :: int
  h1 :: "string list"
  h2Count :: int
  h3Count :: int
  hasHttps :: bool
  xRobots :: string
  metaRobots :: string
  favicon :: bool
  hasOpenGraph :: bool
  viewport :: bool
  wordcountcontentonly :: int
  words :: int
  totalwordcount :: int
  wordcount :: int
  strongTags :: int
  imagesWithoutAlt :: int
  hasSchema :: bool
  hasJsonLd :: bool
  canonicalUrl :: string
  hasHreflang :: bool
  appleTouchIcon :: bool
  javascriptFiles :: int
  cssFiles :: int

record scoreResult =
  seo_page_score :: int
  seo_grade :: string
  seo_category :: string
  seo_issues_count :: nat
  notes_str :: string
  issues :: "string list"

text \<open>The running state of \<open>calculateScore\<close>: the score and the issue list.\<close>

type_synonym scoring = "int \<times> string list"

text \<open>\<open>a || b\<close> on numbers: the first operand unless it is \<open>0\<close>.\<close>

definition orElse :: "int \<Rightarrow> int \<Rightarrow> int" where
  "orElse a b = (if a \<noteq> 0 then a else b)"

definition titleOptimization :: "seoData \<Rightarrow> scoring \<Rightarrow> scoring" where
  "titleOptimization d = (\<lambda>(score, issues).
     let titleLength = orElse (titleLength d) (orElse (int (length (title d))) 0) in
     if title d = [] \<or> titleLength < 10 then (score - 15, issues @ [''missing/short title''])
     else if titleLength > 60 then (score - 8, issues @ [''title too long''])
     else if titleLength < 30 then (score - 5, issues @ [''title could be longer''])
     else (score, issues))"

definition metaDescription :: "seoData \<Rightarrow> scoring \<Rightarrow> scoring" where
  "metaDescription d = (\<lambda>(score, issues).
     let descLength = orElse (descriptionLength d) (orElse (int (length (description d))) 0) in
     if description d = [] \<or> descLength < 120
       then (score - 12, issues @ [''missing/short meta description''])
     else if descLength > 160 then (score - 6, issues @ [''meta description too long''])
     else (score, issues))"

text \<open>
  \<open>Math.floor(headingScore * 0.2)\<close> is \<open>headingScore div 5\<close> on whole numbers: the double
  nearest to \<open>0.2\<close> lies above one fifth by less than half a unit in the last place, so the
  product of a multiple of five rounds to the exact quotient and no other product reaches the
  next integer.
\<close>

definition headingStructure :: "seoData \<Rightarrow> scoring \<Rightarrow> scoring" where
  "headingStructure d = (\<lambda>(score, issues).
     case headingScore d of
       Some hs \<Rightarrow>
         (score + hs div 5 - 20,
          if hs < 50 then issues @ [''poor heading structure''] else issues)
     | None \<Rightarrow>
         (let h1Count = orElse (h1Count d) (int (length (h1 d)));
              h2Count = orElse (h2Count d) 0;
              h3Count = orElse (h3Count d) 0;
              (score1, issues1) =
                 (if h1Count = 0 then (score - 18, issues @ [''missing H1''])
                  else if h1Count > 1 then (score - 12, issues @ [''multiple H1 tags''])
                  else (score, issues));
              score2 = (if h1Count = 1 \<and> h2Count > 0 then score1 + 2 else score1);
              score3 = (if h2Count > 0 \<and> h3Count > 0 then score2 + 1 else score2)
          in (score3, issues1)))"

definition technicalSeo :: "seoData \<Rightarrow> scoring \<Rightarrow> scoring" where
  "technicalSeo d = (\<lambda>(score, issues).
     let (s1, i1) = (if \<not> hasHttps d then (score - 10, issues @ [''no HTTPS'']) else (score, issues));
         (s2, i2) = (if str_includes (toLowerCase (xRobots d)) ''noindex''
                        \<or> str_includes (toLowerCase (metaRobots d)) ''noindex''
                     then (s1 - 15, i1 @ [''page set to noindex'']) else (s1, i1));
         (s3, i3) = (if str_includes (toLowerCase (xRobots d)) ''nofollow''
                        \<or> str_includes (toLowerCase (metaRobots d)) ''nofollow''
                     then (s2 - 5, i2 @ [''page set to nofollow'']) else (s2, i2));
         (s4, i4) = (if \<not> favicon d then (s3 - 3, i3 @ [''no favicon'']) else (s3, i3));
         (s5, i5) = (if \<not> hasOpenGraph d then (s4 - 4, i4 @ [''no OpenGraph'']) else (s4, i4))
     in if \<not> viewport d then (s5 - 3, i5 @ [''no viewport meta'']) else (s5, i5))"

definition contentQuality :: "seoData \<Rightarrow> scoring \<Rightarrow> scoring" where
  "contentQuality d = (\<lambda>(score, issues).
     let words = orElse (wordcountcontentonly d) (orElse (words d) 0);
         (s1, i1) =
            (if words < 150 then (score - 8, issues @ [''very low word count''])
             else if words < 300 then (score - 5, issues @ [''low word count''])
             else if words \<ge> 800 then (score + 2, issues)
             else (score, issues));
         strongTags = orElse (strongTags d) 0
     in if strongTags = 0 \<and> words > 200 then (s1 - 2, i1 @ [''no emphasis tags''])
        else (s1, i1))"

definition imagesOptimization :: "seoData \<Rightarrow> scoring \<Rightarrow> scoring" where
  "imagesOptimization d = (\<lambda>(score, issues).
     let imagesWithoutAlt = orElse (imagesWithoutAlt d) 0 in
     if imagesWithoutAlt > 0 then
       (let imageIssueScore = min 5 imagesWithoutAlt
        in (score - imageIssueScore,
            issues @ [numberToString imagesWithoutAlt @ '' images without alt text'']))
     else (score, issues))"

definition advancedBonuses :: "seoData \<Rightarrow> int" where
  "advancedBonuses d =
     (if hasSchema d \<or> hasJsonLd d then 2 else 0)
     + (if canonicalUrl d \<noteq> [] then 1 else 0)
     + (if hasHreflang d then 1 else 0)
     + (if appleTouchIcon d then 1 else 0)"

definition performancePenalties :: "seoData \<Rightarrow> scoring \<Rightarrow> scoring" where
  "performancePenalties d = (\<lambda>(score, issues).
     let jsFiles = orElse (javascriptFiles d) 0;
         cssFiles = orElse (cssFiles d) 0;
         (s1, i1) = (if jsFiles > 20 then (score - 3, issues @ [''too many JS files''])
                     else (score, issues))
     in if cssFiles > 10 then (s1 - 2, i1 @ [''too many CSS files'']) else (s1, i1))"

text \<open>The score and the issues before the final rounding and clamping, in source order.\<close>

definition scoreBeforeImages :: "seoData \<Rightarrow> scoring" where
  "scoreBeforeImages d =
     contentQuality d (technicalSeo d (headingStructure d (metaDescription d
       (titleOptimization d (100, [])))))"

definition scoreAfterImages :: "seoData \<Rightarrow> scoring \<Rightarrow> scoring" where
  "scoreAfterImages d = (\<lambda>(score, issues).
     performancePenalties d (score + advancedBonuses d, issues))"

definition rawScoring :: "seoData \<Rightarrow> scoring" where
  "rawScoring d = scoreAfterImages d (imagesOptimization d (scoreBeforeImages d))"

definition getGrade :: "int \<Rightarrow> string" where
  "getGrade score =
     (if score \<ge> 90 then ''A''
      else if score \<ge> 80 then ''B''
      else if score \<ge> 70 then ''C''
      else if score \<ge> 60 then ''D''
      else ''F'')"

definition getCategory :: "int \<Rightarrow> string" where
  "getCategory score =
     (if score \<ge> 85 then ''Excellent''
      else if score \<ge> 70 then ''Good''
      else if score \<ge> 50 then ''Needs Improvement''
      else ''Poor'')"

text \<open>\<open>replace(/^\s*\|\s*/, '')\<close>: a leading separator is removed with the space around it.\<close>

definition stripLeadingSeparator :: "string \<Rightarrow> string" where
  "stripLeadingSeparator s =
     (case dropWhile isSpace s of
        [] \<Rightarrow> s
      | c # rest \<Rightarrow> if c = CHR ''|'' then dropWhile isSpace rest else s)"

definition generateSeoNotes :: "seoData \<Rightarrow> string list \<Rightarrow> string" where
  "generateSeoNotes d found =
     (let positives =
            (if hasHttps d then [''HTTPS enabled''] else [])
            @ (if hasOpenGraph d then [''OpenGraph present''] else [])
            @ (if orElse (words d) 0 \<ge> 500 then [''good content length''] else [])
            @ (if orElse (h1Count d) 0 = 1 then [''proper H1 structure''] else []);
          result = (if length found > 0 then ''Issues: '' @ join '', '' found else []);
          bonus = (if length positives > 0 then '' | Strengths: '' @ join '', '' positives
                   else [])
      in stripLeadingSeparator (result @ bonus))"

text \<open>
  \<open>calculateScore\<close>. The running score is a whole number, on which \<open>Math.round\<close> is the
  identity; the final score is the running score clamped to \<open>[0, 100]\<close>.
\<close>

definition calculateScore :: "seoData \<Rightarrow> scoreResult" where
  "calculateScore d =
     (let (score, found) = rawScoring d;
          finalScore = max 0 (min 100 score)
      in \<lparr> seo_page_score = finalScore,
           seo_grade = getGrade finalScore,
           seo_category = getCategory finalScore,
           seo_issues_count = length found,
           notes_str = generateSeoNotes d found,
           issues = found \<rparr>)"

text \<open>The orderings of grades and categories, worst first.\<close>

definition gradeRank :: "string \<Rightarrow> nat" where
  "gradeRank g =
     (if g = ''A'' then 4 else if g = ''B'' then 3 else if g = ''C'' then 2
      else if g = ''D'' then 1 else 0)"

definition categoryRank :: "string \<Rightarrow> nat" where
  "categoryRank c =
     (if c = ''Excellent'' then 3 else if c = ''Good'' then 2
      else if c = ''Needs Improvement'' then 1 else 0)"

text \<open>Example feature records.\<close>

definition page_full :: seoData where
  "page_full = \<lparr> title = ''A complete guide to on-page search optimisation'',
     titleLength = 47, description = replicate 140 CHR ''d'', descriptionLength = 140,
     headingScore = None, h1Count = 1, h1 = [''Guide''], h2Count = 2, h3Count = 1,
     hasHttps = True, xRobots = [], metaRobots = ''index, follow'', favicon = True,
     hasOpenGraph = True, viewport = True, wordcountcontentonly = 900, words = 950,
     totalwordcount = 1500, wordcount = 950, strongTags = 3, imagesWithoutAlt = 0,
     hasSchema = False, hasJsonLd = True, canonicalUrl = ''https://example.com/guide'',
     hasHreflang = False, appleTouchIcon = False, javascriptFiles = 4, cssFiles = 2 \<rparr>"

definition page_short :: seoData where
  "page_short = \<lparr> title = ''Hello'', titleLength = 5, description = [],
     descriptionLength = 0, headingScore = None, h1Count = 1, h1 = [''Welcome''],
     h2Count = 0, h3Count = 0, hasHttps = True, xRobots = [], metaRobots = [],
     favicon = False, hasOpenGraph = False, viewport = True, wordcountcontentonly = 100,
     words = 100, totalwordcount = 100, wordcount = 100, strongTags = 0,
     imagesWithoutAlt = 0, hasSchema = False, hasJsonLd = False, canonicalUrl = [],
     hasHreflang = False, appleTouchIcon = False, javascriptFiles = 0, cssFiles = 0 \<rparr>"

definition page_scenario :: seoData where
  "page_scenario = \<lparr> title = ''Store'', titleLength = 5, description = [],
     descriptionLength = 0, headingScore = None, h1Count = 1, h1 = [''Our store''],
     h2Count = 0, h3Count = 0, hasHttps = True, xRobots = [], metaRobots = ''index'',
     favicon = False, hasOpenGraph = False, viewport = True, wordcountcontentonly = 100,
     words = 180, totalwordcount = 400, wordcount = 180, strongTags = 0,
     imagesWithoutAlt = 0, hasSchema = False, hasJsonLd = False, canonicalUrl = [],
     hasHreflang = False, appleTouchIcon = False, javascriptFiles = 3, cssFiles = 1 \<rparr>"

definition page_ten_images :: seoData where
  "page_ten_images = page_full\<lparr>imagesWithoutAlt := 10\<rparr>"

section \<open>The platform's URL objects\<close>

text \<open>
  The state of a WHATWG \<open>URL\<close> object as the code reads and writes it. \<open>searchParams\<close>
  holds the decoded entries of the query, \<open>fragment\<close> is \<open>None\<close> when the URL has no
  \<open>#\<close> part, and \<open>opaquePath\<close> marks URLs without a hierarchical path (\<open>mailto:\<close>,
  \<open>data:\<close>, \<open>javascript:\<close>). Parsing (\<open>new URL(input)\<close>, \<open>new URL(input, base)\<close>) and
  serialising (\<open>href\<close>, \<open>toString()\<close>) belong to the platform and are parameters of the
  functions that use them; a parser returns \<open>None\<close> where the constructor throws.
\<close>

record URL =
  protocol :: string
  username :: string
  password :: string
  hostname :: string
  port :: string
  pathname :: string
  searchParams :: "(string \<times> string) list"
  fragment :: "string option"
  opaquePath :: bool

type_synonym urlParser = "string \<Rightarrow> string option \<Rightarrow> URL option"

text \<open>The \<open>hash\<close> getter: empty for a missing or empty fragment.\<close>

definition hash :: "URL \<Rightarrow> string" where
  "hash u = (case fragment u of
               None \<Rightarrow> []
             | Some f \<Rightarrow> if f = [] then [] else CHR ''#'' # f)"

section \<open>Sitemap walker (sitemap-analyzer.js)\<close>

text \<open>
  What \<open>axios.get\<close> returns for a sitemap URL: the status, the \<open>content-type\<close> header
  (empty when absent) and the body. The network is a function from URLs to responses;
  \<open>None\<close> stands for a request that throws (transport failure, timeout, a status outside
  2xx).
\<close>

record response =
  status :: int
  contentType :: string
  data :: string

text \<open>\<open>[^>]*>\<close> at the start of \<open>s\<close>: what follows the first closing bracket, if any.\<close>

definition closeTag :: "string \<Rightarrow> string option" where
  "closeTag s =
     (case dropWhile (\<lambda>c. c \<noteq> CHR ''>'') s of [] \<Rightarrow> None | c # rest \<Rightarrow> Some rest)"

text \<open>One attempt of \<open>/<url[^>]*>/i\<close> at the start of \<open>s\<close>: what follows the match.\<close>

definition matchUrlTag :: "string \<Rightarrow> string option" where
  "matchUrlTag s = (if toLowerCase (take 4 s) = ''<url'' then closeTag (drop 4 s) else None)"

lemma closeTag_shorter: "closeTag s = Some rest \<Longrightarrow> length rest < length s"
proof -
  assume "closeTag s = Some rest"
  then obtain c where "dropWhile (\<lambda>c. c \<noteq> CHR ''>'') s = c # rest"
    by (auto simp: closeTag_def split: list.splits)
  then have "length rest < length (dropWhile (\<lambda>c. c \<noteq> CHR ''>'') s)"
    by simp
  also have "\<dots> \<le> length s"
    by (rule length_dropWhile_le)
  finally show ?thesis .
qed

lemma matchUrlTag_shorter: "matchUrlTag s = Some rest \<Longrightarrow> length rest < length s"
  by (auto simp: matchUrlTag_def split: if_splits dest!: closeTag_shorter)

text \<open>
  \<open>countUrlsInSitemap\<close>: the number of matches of \<open>/<url[^>]*>/gi\<close>, scanning from the left
  and resuming after each match.
\<close>

function countUrlsInSitemap :: "string \<Rightarrow> nat" where
  "countUrlsInSitemap [] = 0"
| "countUrlsInSitemap (c # cs) =
     (case matchUrlTag (c # cs) of
        Some rest \<Rightarrow> 1 + countUrlsInSitemap rest
      | None \<Rightarrow> countUrlsInSitemap cs)"
  by pat_completeness auto
termination
  by (relation "measure length") (auto dest: matchUrlTag_shorter)

text \<open>
  One attempt of \<open>/<loc[^>]*>([^<]+)<\/loc>/i\<close> at the start of \<open>s\<close>: the captured group and
  what follows the match. Both repetitions stop at the one character they exclude, so the match
  is unique.
\<close>

definition matchLoc :: "string \<Rightarrow> (string \<times> string) option" where
  "matchLoc s =
     (if toLowerCase (take 4 s) = ''<loc'' then
        (case closeTag (drop 4 s) of
           None \<Rightarrow> None
         | Some body \<Rightarrow>
             (let captured = takeWhile (\<lambda>c. c \<noteq> CHR ''<'') body;
                  rest = dropWhile (\<lambda>c. c \<noteq> CHR ''<'') body
              in if captured \<noteq> [] \<and> toLowerCase (take 6 rest) = ''</loc>''
                 then Some (captured, drop 6 rest) else None))
      else None)"

lemma matchLoc_shorter: "matchLoc s = Some (g, rest) \<Longrightarrow> length rest < length s"
proof -
  assume "matchLoc s = Some (g, rest)"
  then obtain body where body: "closeTag (drop 4 s) = Some body"
    and rest: "rest = drop 6 (dropWhile (\<lambda>c. c \<noteq> CHR ''<'') body)"
    by (auto simp: matchLoc_def Let_def split: if_splits option.splits)
  have "length rest \<le> length (dropWhile (\<lambda>c. c \<noteq> CHR ''<'') body)"
    by (simp add: rest)
  also have "\<dots> \<le> length body"
    by (rule length_dropWhile_le)
  also have "\<dots> < length (drop 4 s)"
    using body by (rule closeTag_shorter)
  also have "\<dots> \<le> length s"
    by simp
  finally show ?thesis .
qed

function extractSitemapUrlsFromIndex :: "string \<Rightarrow> string list" where
  "extractSitemapUrlsFromIndex [] = []"
| "extractSitemapUrlsFromIndex (c # cs) =
     (case matchLoc (c # cs) of
        Some (captured, rest) \<Rightarrow> trim captured # extractSitemapUrlsFromIndex rest
      | None \<Rightarrow> extractSitemapUrlsFromIndex cs)"
  by pat_completeness auto
termination
  by (relation "measure length") (auto dest: matchLoc_shorter)

text \<open>
  \<open>countTotalUrlsInSitemaps\<close>, with the visited set passed in and returned (the source shares
  one mutable \<open>Set\<close> between all calls), and \<open>countNested\<close>, its loop over the sitemaps of an
  index. A failed request is caught and counts 0.
\<close>

function countTotalUrlsInSitemaps ::
    "(string \<Rightarrow> response option) \<Rightarrow> string \<Rightarrow> int \<Rightarrow> string set \<Rightarrow> nat \<times> string set"
  and countNested ::
    "(string \<Rightarrow> response option) \<Rightarrow> string list \<Rightarrow> int \<Rightarrow> string set \<Rightarrow> nat
      \<Rightarrow> nat \<times> string set"
where
  "countTotalUrlsInSitemaps get sitemapUrl maxDepth visitedUrls =
     (if maxDepth \<le> 0 \<or> sitemapUrl \<in> visitedUrls then (0, visitedUrls)
      else
        (let visited1 = insert sitemapUrl visitedUrls in
         case get sitemapUrl of
           None \<Rightarrow> (0, visited1)
         | Some response \<Rightarrow>
             if status response = 200 then
               if str_includes (contentType response) ''xml''
                  \<or> str_includes (contentType response) ''text''
               then
                 if str_includes (data response) ''<sitemapindex''
                    \<or> str_includes (data response) ''<sitemap:''
                    \<or> str_includes (data response) ''sitemapindex''
                 then countNested get (extractSitemapUrlsFromIndex (data response))
                        (maxDepth - 1) visited1 0
                 else if str_includes (data response) ''<urlset''
                    \<or> str_includes (data response) ''<url:''
                    \<or> str_includes (data response) ''urlset''
                 then (countUrlsInSitemap (data response), visited1)
                 else (0, visited1)
               else (0, visited1)
             else (0, visited1)))"
| "countNested get [] depth visitedUrls totalUrls = (totalUrls, visitedUrls)"
| "countNested get (nestedSitemapUrl # others) depth visitedUrls totalUrls =
     (case countTotalUrlsInSitemaps get nestedSitemapUrl depth visitedUrls of
        (nestedUrlCount, visited1) \<Rightarrow>
          countNested get others depth visited1 (totalUrls + nestedUrlCount))"
  by pat_completeness auto
termination
  by (relation "measures
        [\<lambda>call. case call of Inl (get, u, d, V) \<Rightarrow> 2 * nat d
                          | Inr (get, us, d, V, t) \<Rightarrow> 2 * nat d + 1,
         \<lambda>call. case call of Inl (get, u, d, V) \<Rightarrow> 0
                          | Inr (get, us, d, V, t) \<Rightarrow> length us]")
    auto

text \<open>The defaults of the source: depth bound 10 and a fresh visited set.\<close>

definition countTotalUrlsInSitemaps_default ::
    "(string \<Rightarrow> response option) \<Rightarrow> string \<Rightarrow> nat \<times> string set" where
  "countTotalUrlsInSitemaps_default get sitemapUrl =
     countTotalUrlsInSitemaps get sitemapUrl 10 {}"

text \<open>
  A response that the walker takes for a sitemap index, listing the given sitemap URLs.
\<close>

definition isIndexListing :: "response \<Rightarrow> string list \<Rightarrow> bool" where
  "isIndexListing r urls =
     (status r = 200
      \<and> (str_includes (contentType r) ''xml'' \<or> str_includes (contentType r) ''text'')
      \<and> (str_includes (data r) ''<sitemapindex'' \<or> str_includes (data r) ''<sitemap:''
           \<or> str_includes (data r) ''sitemapindex'')
      \<and> extractSitemapUrlsFromIndex (data r) = urls)"

definition listsNext :: "(string \<Rightarrow> response option) \<Rightarrow> (nat \<Rightarrow> string) \<Rightarrow> nat \<Rightarrow> bool" where
  "listsNext get u i =
     (case get (u i) of None \<Rightarrow> False | Some r \<Rightarrow> isIndexListing r [u (Suc i)])"

text \<open>
  Example networks: an index that lists only itself, and an index nested 15 levels deep
  (levels 0 to 14 each list the next level) above a leaf sitemap.
\<close>

definition xmlResponse :: "string \<Rightarrow> response" where
  "xmlResponse body = \<lparr> status = 200, contentType = ''application/xml'', data = body \<rparr>"

definition indexOf :: "string \<Rightarrow> string" where
  "indexOf child =
     ''<sitemapindex><sitemap><loc>'' @ child @ ''</loc></sitemap></sitemapindex>''"

definition selfUrl :: string where
  "selfUrl = ''http://a.io/sitemap.xml''"

definition selfReferencing :: "string \<Rightarrow> response option" where
  "selfReferencing = map_of [(selfUrl, xmlResponse (indexOf selfUrl))]"

definition level :: "nat \<Rightarrow> string" where
  "level i = ''http://a.io/s'' @ digits i"

definition leafDoc :: string where
  "leafDoc = ''<urlset><url><loc>http://a.io/p</loc></url></urlset>''"

definition nested15 :: "string \<Rightarrow> response option" where
  "nested15 = map_of ((level 15, xmlResponse leafDoc)
       # map (\<lambda>i. (level i, xmlResponse (indexOf (level (Suc i))))) [0..<15])"

section \<open>Domain aggregator (main.js, calculateDomainAnalysis)\<close>

text \<open>
  A page result is the feature record of the page together with the score fields and the
  status code; the result pushed for a failed page has only \<open>url\<close>, \<open>error\<close> and
  \<open>statusCode\<close>. The score fields are therefore optional as a group, and \<open>seo_page_score\<close>
  of a result is undefined exactly when they are absent. Of \<open>openGraphData\<close> only the keys
  the aggregator tests are kept; a \<open>null\<close> entry reads as the empty string.
\<close>

record openGraph =
  og_title :: string
  og_description :: string
  og_image :: string
  og_images :: "string list"

record pageResult = seoData +
  url :: string
  scoreData :: "scoreResult option"
  error :: string
  statusCode :: int
  internalLinksCount :: int
  openGraphData :: "openGraph option"

record sitemapAnalysis =
  hasSitemap :: bool
  sitemapUrl :: string
  sitemapType :: string
  sitemapSize :: int
  totalUrls :: int
  sitemapUrls :: "string list"
  sitemapLastModified :: string

record sitemapInfo =
  has_sitemap :: bool
  sitemap_url :: "string option"
  sitemap_type :: "string option"
  sitemap_size :: int
  total_urls :: int
  sitemap_urls :: "string list"
  sitemap_lastmod :: "string option"

text \<open>
  The result of \<open>calculateDomainAnalysis\<close>. The source's keys \<open>seo_grade\<close> and
  \<open>seo_score\<close> carry the prefix \<open>domain_\<close> here, since the score result has fields of
  these names. The certificate descriptor is whatever the certificate probe returns.
\<close>

record 'ssl domainAnalysis =
  domain_name :: string
  domainLength :: nat
  total_pages_analyzed :: nat
  average_seo_score :: jsnum
  overall_grade :: string
  domain_seo_score :: jsnum
  domain_seo_grade :: string
  pages_with_h1 :: nat
  pages_with_h1_percentage :: jsnum
  pages_with_meta_description :: nat
  pages_with_meta_description_percentage :: jsnum
  pages_with_errors :: nat
  pages_with_errors_percentage :: jsnum
  average_title_length :: jsnum
  average_description_length :: jsnum
  average_words_per_page :: jsnum
  average_internal_links :: jsnum
  pages_with_successful_status :: nat
  pages_with_successful_status_percentage :: jsnum
  pages_with_redirect_status :: nat
  pages_with_redirect_status_percentage :: jsnum
  pages_with_error_status :: nat
  pages_with_error_status_percentage :: jsnum
  pages_with_opengraph :: nat
  pages_with_opengraph_percentage :: jsnum
  pages_with_opengraph_title :: nat
  pages_with_opengraph_title_percentage :: jsnum
  pages_with_opengraph_description :: nat
  pages_with_opengraph_description_percentage :: jsnum
  pages_with_opengraph_image :: nat
  pages_with_opengraph_image_percentage :: jsnum
  ssl_certificate_info :: 'ssl
  sitemap_info :: sitemapInfo

datatype jsError = TypeError_InvalidURL

text \<open>\<open>Math.round((count / totalPages) * 100)\<close> and \<open>Math.round(sum / totalPages)\<close>.\<close>

definition roundedPercentage :: "nat \<Rightarrow> nat \<Rightarrow> jsnum" where
  "roundedPercentage count totalPages =
     Math_round (js_times (js_div (of_nat count) (of_nat totalPages)) 100)"

definition roundedAverage :: "int \<Rightarrow> nat \<Rightarrow> jsnum" where
  "roundedAverage summed totalPages = Math_round (js_div (of_int summed) (of_nat totalPages))"

definition truthyString :: "string \<Rightarrow> string option" where
  "truthyString s = (if s = [] then None else Some s)"

definition buildSitemapInfo :: "sitemapAnalysis option \<Rightarrow> sitemapInfo" where
  "buildSitemapInfo domainSitemapAnalysis =
     (case domainSitemapAnalysis of
        None \<Rightarrow> \<lparr> has_sitemap = False, sitemap_url = None, sitemap_type = None,
                  sitemap_size = 0, total_urls = 0, sitemap_urls = [], sitemap_lastmod = None \<rparr>
      | Some a \<Rightarrow> \<lparr> has_sitemap = hasSitemap a, sitemap_url = truthyString (sitemapUrl a),
                  sitemap_type = truthyString (sitemapType a), sitemap_size = sitemapSize a,
                  total_urls = totalUrls a, sitemap_urls = sitemapUrls a,
                  sitemap_lastmod = truthyString (sitemapLastModified a) \<rparr>)"

definition hasOpenGraphKey :: "(openGraph \<Rightarrow> bool) \<Rightarrow> pageResult \<Rightarrow> bool" where
  "hasOpenGraphKey test r = (case openGraphData r of None \<Rightarrow> False | Some og \<Rightarrow> test og)"

text \<open>
  \<open>calculateDomainAnalysis\<close>. The average score is guarded against an empty list of scored
  results; the percentages and the four averages divide by \<open>results.length\<close> directly.
  \<open>new URL(firstUrl)\<close> throws on a first URL that does not parse; the certificate probe
  never throws.
\<close>

definition calculateDomainAnalysis ::
    "urlParser \<Rightarrow> (string \<Rightarrow> 'ssl) \<Rightarrow> pageResult list \<Rightarrow> sitemapAnalysis option
      \<Rightarrow> jsError + 'ssl domainAnalysis" where
  "calculateDomainAnalysis newURL analyzeSSLCertificate results domainSitemapAnalysis =
     (let validScores = List.map_filter (\<lambda>r. map_option seo_page_score (scoreData r)) results;
          averageScore =
            (if length validScores > 0
             then of_int (sum_list validScores) / of_nat (length validScores)
             else (0 :: rat));
          overallGrade =
            (if averageScore \<ge> 90 then ''A''
             else if averageScore \<ge> 80 then ''B''
             else if averageScore \<ge> 70 then ''C''
             else if averageScore \<ge> 60 then ''D''
             else ''F'');
          firstUrl = (case results of [] \<Rightarrow> [] | r # rest \<Rightarrow> url r);
          totalPages = length results;
          pagesWithH1 = length (filter (\<lambda>r. h1Count r > 0) results);
          pagesWithMetaDesc = length (filter (\<lambda>r. descriptionLength r > 0) results);
          pagesWithErrors = length (filter (\<lambda>r. error r \<noteq> []) results);
          statusCodes = map statusCode (filter (\<lambda>r. statusCode r \<noteq> 0) results);
          successfulPages = length (filter (\<lambda>code. code \<ge> 200 \<and> code < 300) statusCodes);
          redirectPages = length (filter (\<lambda>code. code \<ge> 300 \<and> code < 400) statusCodes);
          errorPages = length (filter (\<lambda>code. code \<ge> 400) statusCodes);
          pagesWithOpenGraph = length (filter hasOpenGraph results);
          pagesWithOpenGraphTitle =
            length (filter (hasOpenGraphKey (\<lambda>og. og_title og \<noteq> [])) results);
          pagesWithOpenGraphDescription =
            length (filter (hasOpenGraphKey (\<lambda>og. og_description og \<noteq> [])) results);
          pagesWithOpenGraphImage =
            length (filter (hasOpenGraphKey
              (\<lambda>og. og_image og \<noteq> [] \<or> length (og_images og) > 0)) results)
      in case (if firstUrl \<noteq> [] then map_option hostname (newURL firstUrl None)
               else Some []) of
           None \<Rightarrow> Inl TypeError_InvalidURL
         | Some domain \<Rightarrow> Inr
             \<lparr> domain_name = domain,
               domainLength = length domain,
               total_pages_analyzed = totalPages,
               average_seo_score = js_over (Math_round (Num (averageScore * 100))) 100,
               overall_grade = overallGrade,
               domain_seo_score = js_over (Math_round (Num (averageScore * 100))) 100,
               domain_seo_grade = overallGrade,
               pages_with_h1 = pagesWithH1,
               pages_with_h1_percentage = roundedPercentage pagesWithH1 totalPages,
               pages_with_meta_description = pagesWithMetaDesc,
               pages_with_meta_description_percentage =
                 roundedPercentage pagesWithMetaDesc totalPages,
               pages_with_errors = pagesWithErrors,
               pages_with_errors_percentage = roundedPercentage pagesWithErrors totalPages,
               average_title_length =
                 roundedAverage (sum_list (map (\<lambda>r. orElse (titleLength r) 0) results))
                   totalPages,
               average_description_length =
                 roundedAverage (sum_list (map (\<lambda>r. orElse (descriptionLength r) 0) results))
                   totalPages,
               average_words_per_page =
                 roundedAverage (sum_list (map (\<lambda>r. orElse (words r) 0) results)) totalPages,
               average_internal_links =
                 roundedAverage (sum_list (map (\<lambda>r. orElse (internalLinksCount r) 0) results))
                   totalPages,
               pages_with_successful_status = successfulPages,
               pages_with_successful_status_percentage =
                 roundedPercentage successfulPages totalPages,
               pages_with_redirect_status = redirectPages,
               pages_with_redirect_status_percentage =
                 roundedPercentage redirectPages totalPages,
               pages_with_error_status = errorPages,
               pages_with_error_status_percentage = roundedPercentage errorPages totalPages,
               pages_with_opengraph = pagesWithOpenGraph,
               pages_with_opengraph_percentage =
                 roundedPercentage pagesWithOpenGraph totalPages,
               pages_with_opengraph_title = pagesWithOpenGraphTitle,
               pages_with_opengraph_title_percentage =
                 roundedPercentage pagesWithOpenGraphTitle totalPages,
               pages_with_opengraph_description = pagesWithOpenGraphDescription,
               pages_with_opengraph_description_percentage =
                 roundedPercentage pagesWithOpenGraphDescription totalPages,
               pages_with_opengraph_image = pagesWithOpenGraphImage,
               pages_with_opengraph_image_percentage =
                 roundedPercentage pagesWithOpenGraphImage totalPages,
               ssl_certificate_info = analyzeSSLCertificate domain,
               sitemap_info = buildSitemapInfo domainSitemapAnalysis \<rparr>)"

section \<open>Link classifier (seo-analyzer.js, analyzeLinks)\<close>

text \<open>
  An element matched by \<open>a[href]\<close>: its \<open>href\<close> and \<open>target\<close> attributes (a missing
  \<open>target\<close> reads as the empty string) and its text content.
\<close>

record anchorElement =
  attr_href :: string
  attr_target :: string
  textContent :: string

record linkData =
  url :: string
  anchorText :: string
  target :: "string option"
  statusCode :: "int option"
  isBroken :: bool

text \<open>The variables the loop over the anchors updates.\<close>

record linkScan =
  internalLinksCount :: nat
  externalLinksCount :: nat
  totalAnchorTextLength :: nat
  internalLinks :: "linkData list"
  externalLinks :: "linkData list"

text \<open>
  The result of \<open>analyzeLinks\<close>: the counters and lists of the scan (of which the source
  returns all but \<open>totalAnchorTextLength\<close>) and the figures computed from them.
\<close>

record linksAnalysis = linkScan +
  averageAnchorTextLength :: jsnum
  brokenInternalLinks :: nat
  brokenExternalLinks :: nat
  totalBrokenLinks :: nat
  brokenLinksPercentage :: jsnum

definition socialMediaDomains :: "string list" where
  "socialMediaDomains =
     [''facebook.com'', ''fb.com'', ''m.facebook.com'',
      ''twitter.com'', ''t.co'', ''x.com'',
      ''instagram.com'', ''linkedin.com'',
      ''youtube.com'', ''youtu.be'',
      ''pinterest.com'', ''tiktok.com'',
      ''snapchat.com'', ''whatsapp.com'',
      ''telegram.org'', ''discord.com'',
      ''reddit.com'', ''tumblr.com'',
      ''flickr.com'', ''vimeo.com'',
      ''medium.com'', ''github.com'',
      ''bit.ly'', ''tinyurl.com'', ''goo.gl'']"

definition isSocialMedia :: "string \<Rightarrow> bool" where
  "isSocialMedia host =
     list_ex (\<lambda>domain. host = domain \<or> endsWith host (CHR ''.'' # domain)) socialMediaDomains"

text \<open>
  The test \<open>isHashOnlyLink\<close> of the source, on the raw \<open>href\<close>, the resolved URL, the base
  URL string and the parsed base URL. It compares paths and never hosts.
\<close>

definition isHashOnlyLink ::
    "(URL \<Rightarrow> string) \<Rightarrow> string \<Rightarrow> URL \<Rightarrow> string \<Rightarrow> URL \<Rightarrow> bool" where
  "isHashOnlyLink toString baseUrl baseUrlObj href resolved =
     (toString resolved = baseUrl @ ''#''
      \<or> toString resolved = baseUrl @ ''#content''
      \<or> (pathname resolved = pathname baseUrlObj \<and> hash resolved \<noteq> [])
      \<or> (pathname resolved = ''/'' \<and> hash resolved \<noteq> [])
      \<or> (endsWith (pathname resolved) ''/'' \<and> hash resolved \<noteq> []
           \<and> pathname resolved = pathname baseUrlObj)
      \<or> endsWith href ''#'')"

text \<open>
  The body of the loop. The anchor text is added before the \<open>href\<close> is looked at; a
  constructor that throws leaves the rest of the state as it was.
\<close>

definition visitLink ::
    "urlParser \<Rightarrow> (URL \<Rightarrow> string) \<Rightarrow> string \<Rightarrow> linkScan \<Rightarrow> anchorElement \<Rightarrow> linkScan" where
  "visitLink newURL toString baseUrl scan link =
     (let anchorText = trim (textContent link);
          scan1 = (if anchorText \<noteq> []
                   then scan\<lparr>totalAnchorTextLength :=
                          totalAnchorTextLength scan + length anchorText\<rparr>
                   else scan)
      in if attr_href link = [] then scan1
         else
           (case newURL (attr_href link) (Some baseUrl) of
              None \<Rightarrow> scan1
            | Some resolved \<Rightarrow>
                (case newURL baseUrl None of
                   None \<Rightarrow> scan1
                 | Some baseUrlObj \<Rightarrow>
                     if isHashOnlyLink toString baseUrl baseUrlObj (attr_href link) resolved
                     then scan1
                     else
                       (let linkData = \<lparr> url = toString resolved, anchorText = anchorText,
                              target = truthyString (attr_target link), statusCode = None,
                              isBroken = False \<rparr>
                        in if hostname resolved = hostname baseUrlObj
                           then scan1\<lparr>internalLinksCount := internalLinksCount scan1 + 1,
                                  internalLinks := internalLinks scan1 @ [linkData]\<rparr>
                           else if \<not> isSocialMedia (hostname resolved)
                           then scan1\<lparr>externalLinksCount := externalLinksCount scan1 + 1,
                                  externalLinks := externalLinks scan1 @ [linkData]\<rparr>
                           else scan1))))"

definition emptyScan :: linkScan where
  "emptyScan = \<lparr> internalLinksCount = 0, externalLinksCount = 0, totalAnchorTextLength = 0,
     internalLinks = [], externalLinks = [] \<rparr>"

text \<open>
  \<open>analyzeLinks\<close>. \<open>checkLinkStatuses\<close> probes the links over the network and sets
  \<open>statusCode\<close> and \<open>isBroken\<close> on each; it is a parameter, returning the annotated list.
\<close>

definition analyzeLinks ::
    "urlParser \<Rightarrow> (URL \<Rightarrow> string) \<Rightarrow> (linkData list \<Rightarrow> linkData list)
      \<Rightarrow> anchorElement list \<Rightarrow> string \<Rightarrow> linksAnalysis" where
  "analyzeLinks newURL toString checkLinkStatuses links baseUrl =
     (let scan = foldl (visitLink newURL toString baseUrl) emptyScan links;
          checkedInternal = checkLinkStatuses (internalLinks scan);
          checkedExternal = checkLinkStatuses (externalLinks scan);
          brokenInternal = length (filter isBroken checkedInternal);
          brokenExternal = length (filter isBroken checkedExternal);
          totalBroken = brokenInternal + brokenExternal;
          totalValidLinks = internalLinksCount scan + externalLinksCount scan
      in \<lparr> internalLinksCount = internalLinksCount scan,
           externalLinksCount = externalLinksCount scan,
           totalAnchorTextLength = totalAnchorTextLength scan,
           internalLinks = checkedInternal,
           externalLinks = checkedExternal,
           averageAnchorTextLength =
             (if length links > 0
              then Math_round (js_div (of_nat (totalAnchorTextLength scan))
                                      (of_nat (length links)))
              else Num 0),
           brokenInternalLinks = brokenInternal,
           brokenExternalLinks = brokenExternal,
           totalBrokenLinks = totalBroken,
           brokenLinksPercentage =
             (if totalValidLinks > 0
              then Math_round (js_times (js_div (of_nat totalBroken) (of_nat totalValidLinks)) 100)
              else Num 0) \<rparr>)"

text \<open>
  The classification in the words of the specification. An anchor whose \<open>href\<close> resolves is,
  in this order: a same-page fragment link (dropped) when its \<open>href\<close> resolves to the base URL
  plus only a hash, or ends in a bare \<open>#\<close>; internal when its host is the base host; social
  (dropped) when its host is a listed domain or a subdomain of one; external otherwise.
\<close>

datatype linkClass = Unresolved | HashOnly | Internal | Social | External

definition isSamePageFragment_spec :: "(URL \<Rightarrow> string) \<Rightarrow> string \<Rightarrow> string \<Rightarrow> URL \<Rightarrow> bool" where
  "isSamePageFragment_spec toString baseUrl href resolved =
     (startsWith (toString resolved) (baseUrl @ ''#'') \<or> endsWith href ''#'')"

definition linkClassOf_spec ::
    "urlParser \<Rightarrow> (URL \<Rightarrow> string) \<Rightarrow> string \<Rightarrow> anchorElement \<Rightarrow> linkClass" where
  "linkClassOf_spec newURL toString baseUrl link =
     (if attr_href link = [] then Unresolved
      else
        (case newURL (attr_href link) (Some baseUrl) of
           None \<Rightarrow> Unresolved
         | Some resolved \<Rightarrow>
             (case newURL baseUrl None of
                None \<Rightarrow> Unresolved
              | Some baseUrlObj \<Rightarrow>
                  if isSamePageFragment_spec toString baseUrl (attr_href link) resolved
                  then HashOnly
                  else if hostname resolved = hostname baseUrlObj then Internal
                  else if isSocialMedia (hostname resolved) then Social
                  else External)))"

section \<open>URL normalizer (url-normalizer.js)\<close>

text \<open>
  The setters of the platform, as far as \<open>normalize\<close> uses them. Assigning to \<open>hostname\<close>
  or \<open>pathname\<close> does nothing on a URL with an opaque path (URL Standard, hostname and
  pathname setters, step 1). Assigning the serialised entries to \<open>search\<close>, or the empty
  string when there are none, leaves the URL with exactly these entries.
\<close>

definition set_hash_empty :: "URL \<Rightarrow> URL" where
  "set_hash_empty u = u\<lparr>fragment := None\<rparr>"

definition set_search :: "URL \<Rightarrow> (string \<times> string) list \<Rightarrow> URL" where
  "set_search u params = u\<lparr>searchParams := params\<rparr>"

definition set_hostname :: "URL \<Rightarrow> string \<Rightarrow> URL" where
  "set_hostname u h = (if opaquePath u then u else u\<lparr>hostname := h\<rparr>)"

definition set_pathname :: "URL \<Rightarrow> string \<Rightarrow> URL" where
  "set_pathname u p = (if opaquePath u then u else u\<lparr>pathname := p\<rparr>)"

text \<open>\<open>/^utm_/i.test(key)\<close>.\<close>

definition isUtmKey :: "string \<Rightarrow> bool" where
  "isUtmKey key = (toLowerCase (take 4 key) = ''utm_'')"

text \<open>\<open>replace(/\/+/g, '/')\<close>: every maximal run of separators becomes one separator.\<close>

function collapseSlashes :: "string \<Rightarrow> string" where
  "collapseSlashes [] = []"
| "collapseSlashes (c # cs) =
     (if c = CHR ''/'' then CHR ''/'' # collapseSlashes (dropWhile (\<lambda>x. x = CHR ''/'') cs)
      else c # collapseSlashes cs)"
  by pat_completeness auto
termination
  by (relation "measure length") (auto simp: less_Suc_eq_le length_dropWhile_le)

text \<open>\<open>replace(/\/+$/, '')\<close>.\<close>

definition stripTrailingSlashes :: "string \<Rightarrow> string" where
  "stripTrailingSlashes s = rev (dropWhile (\<lambda>x. x = CHR ''/'') (rev s))"

text \<open>
  The statements of \<open>normalize\<close> between the constructor and \<open>toString\<close>, and
  \<open>normalize\<close> itself (here \<open>normalize_url\<close>).
\<close>

definition normalizeUrlObject :: "URL \<Rightarrow> URL" where
  "normalizeUrlObject u =
     (let u1 = set_hash_empty u;
          params = filter (\<lambda>(key, v). \<not> isUtmKey key) (searchParams u1);
          u2 = set_search u1 params;
          u3 = set_hostname u2 (toLowerCase (hostname u2));
          u4 = set_pathname u3 (collapseSlashes (pathname u3))
      in if pathname u4 \<noteq> ''/'' \<and> endsWith (pathname u4) ''/''
         then set_pathname u4 (butlast (pathname u4))
         else u4)"

definition normalize_url :: "urlParser \<Rightarrow> (URL \<Rightarrow> string) \<Rightarrow> string \<Rightarrow> string" where
  "normalize_url newURL toString rawUrl =
     (if rawUrl = [] then []
      else
        (case newURL (trim rawUrl) None of
           Some u \<Rightarrow> toString (normalizeUrlObject u)
         | None \<Rightarrow>
             (let cleaned = stripTrailingSlashes (trim rawUrl)
              in if cleaned = [] then [] else toLowerCase cleaned)))"

text \<open>
  For stating what becomes of the path: a path without two separators in a row, and the path
  after the rule for a trailing separator.
\<close>

definition dropOneTrailingSlash :: "string \<Rightarrow> string" where
  "dropOneTrailingSlash p = (if p \<noteq> ''/'' \<and> endsWith p ''/'' then butlast p else p)"

fun noRepeatedSlash :: "string \<Rightarrow> bool" where
  "noRepeatedSlash (c # d # cs) = (\<not> (c = CHR ''/'' \<and> d = CHR ''/'') \<and> noRepeatedSlash (d # cs))"
| "noRepeatedSlash cs = True"

section \<open>A reference instance of the platform's URL functions\<close>

text \<open>
  The constructor and the serialiser of the URL Standard on a part of its input language:
  absolute URLs \<open>http://host/path?query#fragment\<close> and \<open>https://...\<close>, absolute URLs
  \<open>scheme:opaque-path?query#fragment\<close> of a scheme that is not special, and hrefs relative
  to a base that start with \<open>#\<close> or with a single \<open>/\<close>. The parts are restricted to
  what the standard neither escapes nor decodes nor interprets: no credentials, no port, no
  percent sign, no dot segment, no white space, a query written as \<open>URLSearchParams\<close>
  serialises it. On this language the functions agree with the standard: the scheme is
  lower-cased, as is the host, and an empty path of an \<open>http\<close> or \<open>https\<close> URL reads \<open>/\<close>.
  On any other input the constructor here returns \<open>None\<close>, also where the platform's accepts
  it; the statements below use it only where it returns a URL.
\<close>

definition splitOnce :: "char \<Rightarrow> string \<Rightarrow> string \<times> string option" where
  "splitOnce c s =
     (takeWhile (\<lambda>x. x \<noteq> c) s,
      case dropWhile (\<lambda>x. x \<noteq> c) s of [] \<Rightarrow> None | x # rest \<Rightarrow> Some rest)"

fun splitAll :: "char \<Rightarrow> string \<Rightarrow> string list" where
  "splitAll c [] = [[]]"
| "splitAll c (x # xs) =
     (if x = c then [] # splitAll c xs
      else (case splitAll c xs of [] \<Rightarrow> [[x]] | piece # pieces \<Rightarrow> (x # piece) # pieces))"

definition ref_parseQuery :: "string \<Rightarrow> (string \<times> string) list" where
  "ref_parseQuery q =
     map (\<lambda>pair. case splitOnce CHR ''='' pair of (k, v) \<Rightarrow> (k, case v of None \<Rightarrow> [] | Some w \<Rightarrow> w))
       (filter (\<lambda>pair. pair \<noteq> []) (splitAll CHR ''&'' q))"

definition ref_serializeQuery :: "(string \<times> string) list \<Rightarrow> string" where
  "ref_serializeQuery params = join ''&'' (map (\<lambda>(k, v). k @ ''='' @ v) params)"

definition isLetter :: "char \<Rightarrow> bool" where
  "isLetter c = (let n = (of_char (toLowerChar c) :: nat) in 97 \<le> n \<and> n \<le> 122)"

text \<open>
  The split of an absolute URL string into its parts. The query, if there is one, has at
  least one entry and is written as its entries serialise.
\<close>

definition ref_parse :: "string \<Rightarrow> URL option" where
  "ref_parse s =
     (case splitOnce CHR ''#'' s of (beforeHash, frag) \<Rightarrow>
      case splitOnce CHR ''?'' beforeHash of (beforeQuery, query) \<Rightarrow>
      case splitOnce CHR '':'' beforeQuery of
        (scheme, None) \<Rightarrow> None
      | (scheme, Some rest) \<Rightarrow>
          if scheme = [] \<or> \<not> list_all isLetter scheme then None
          else if (case query of None \<Rightarrow> False
                   | Some q \<Rightarrow> q = [] \<or> ref_serializeQuery (ref_parseQuery q) \<noteq> q) then None
          else if startsWith rest ''//'' then
            (let host = takeWhile (\<lambda>x. x \<noteq> CHR ''/'') (drop 2 rest);
                 path = dropWhile (\<lambda>x. x \<noteq> CHR ''/'') (drop 2 rest);
                 special = (toLowerCase scheme = ''http'' \<or> toLowerCase scheme = ''https'')
             in if host = [] then None
                else Some \<lparr> protocol = toLowerCase scheme @ '':'', username = [], password = [],
                       hostname = (if special then toLowerCase host else host), port = [],
                       pathname = (if special \<and> path = [] then ''/'' else path),
                       searchParams = ref_parseQuery (case query of None \<Rightarrow> [] | Some q \<Rightarrow> q),
                       fragment = frag, opaquePath = False \<rparr>)
          else Some \<lparr> protocol = toLowerCase scheme @ '':'', username = [], password = [],
                 hostname = [], port = [], pathname = rest,
                 searchParams = ref_parseQuery (case query of None \<Rightarrow> [] | Some q \<Rightarrow> q),
                 fragment = frag, opaquePath = True \<rparr>)"

definition ref_toString :: "URL \<Rightarrow> string" where
  "ref_toString u =
     protocol u @ (if opaquePath u then [] else ''//'' @ hostname u) @ pathname u
     @ (if searchParams u = [] then [] else CHR ''?'' # ref_serializeQuery (searchParams u))
     @ (case fragment u of None \<Rightarrow> [] | Some f \<Rightarrow> CHR ''#'' # f)"

text \<open>
  The characters of each part: those that the standard leaves as they are in a path and in a
  fragment, and in query keys and values those that \<open>URLSearchParams\<close> serialises as they
  are. A host is a list of non-empty labels of lower-case letters, digits and hyphens, none of
  them an \<open>xn--\<close> label, the last one starting with a letter (so that the host is not read as
  an IPv4 address). A hierarchical path starts with \<open>/\<close> and has no segment \<open>.\<close> or \<open>..\<close>;
  an opaque path does not start with \<open>/\<close>.
\<close>

definition lowerAlpha :: string where
  "lowerAlpha = ''abcdefghijklmnopqrstuvwxyz''"

definition upperAlpha :: string where
  "upperAlpha = ''ABCDEFGHIJKLMNOPQRSTUVWXYZ''"

definition digitChars :: string where
  "digitChars = ''0123456789''"

definition ref_schemeChars :: string where
  "ref_schemeChars = lowerAlpha"

definition ref_hostChars :: string where
  "ref_hostChars = lowerAlpha @ digitChars @ ''-.''"

definition ref_pathChars :: string where
  "ref_pathChars = lowerAlpha @ upperAlpha @ digitChars @ ''/-_~.+,;=@:!$&()*''"

definition ref_queryChars :: string where
  "ref_queryChars = lowerAlpha @ upperAlpha @ digitChars @ ''-_.*''"

definition ref_fragmentChars :: string where
  "ref_fragmentChars = lowerAlpha @ upperAlpha @ digitChars @ ''/-_~.+,;=@:!$&()*?''"

definition madeOf :: "string \<Rightarrow> string \<Rightarrow> bool" where
  "madeOf chars s = list_all (\<lambda>c. c \<in> set chars) s"

definition specialSchemes :: "string list" where
  "specialSchemes = [''http'', ''https'', ''ftp'', ''file'', ''ws'', ''wss'']"

definition ref_validHost :: "string \<Rightarrow> bool" where
  "ref_validHost h =
     (madeOf ref_hostChars h
      \<and> list_all (\<lambda>label. label \<noteq> [] \<and> \<not> startsWith label ''xn--'') (splitAll CHR ''.'' h)
      \<and> hd (last (splitAll CHR ''.'' h)) \<in> set lowerAlpha)"

definition noDotSegment :: "string \<Rightarrow> bool" where
  "noDotSegment p = list_all (\<lambda>segment. segment \<noteq> ''.'' \<and> segment \<noteq> ''..'') (splitAll CHR ''/'' p)"

definition ref_wellFormed :: "URL \<Rightarrow> bool" where
  "ref_wellFormed u =
     (username u = [] \<and> password u = [] \<and> port u = []
      \<and> protocol u = butlast (protocol u) @ '':''
      \<and> butlast (protocol u) \<noteq> []
      \<and> madeOf ref_schemeChars (butlast (protocol u))
      \<and> list_all (\<lambda>(k, v). madeOf ref_queryChars k \<and> madeOf ref_queryChars v) (searchParams u)
      \<and> (case fragment u of None \<Rightarrow> True | Some f \<Rightarrow> madeOf ref_fragmentChars f)
      \<and> madeOf ref_pathChars (pathname u)
      \<and> (if opaquePath u
         then hostname u = []
              \<and> butlast (protocol u) \<notin> set specialSchemes
              \<and> take 1 (pathname u) \<noteq> ''/''
         else (butlast (protocol u) = ''http'' \<or> butlast (protocol u) = ''https'')
              \<and> ref_validHost (hostname u)
              \<and> take 1 (pathname u) = ''/''
              \<and> noDotSegment (pathname u)))"

text \<open>
  The constructor \<open>new URL(input)\<close> and \<open>new URL(input, base)\<close>. The standard first removes
  leading and trailing C0 control characters and spaces (code units up to 32).
\<close>

definition isC0ControlOrSpace :: "char \<Rightarrow> bool" where
  "isC0ControlOrSpace c = ((of_char c :: nat) \<le> 32)"

definition stripC0 :: "string \<Rightarrow> string" where
  "stripC0 s = rev (dropWhile isC0ControlOrSpace (rev (dropWhile isC0ControlOrSpace s)))"

definition ref_checked :: "URL \<Rightarrow> URL option" where
  "ref_checked u = (if ref_wellFormed u then Some u else None)"

definition ref_absolute :: "string \<Rightarrow> URL option" where
  "ref_absolute input =
     (case ref_parse (stripC0 input) of None \<Rightarrow> None | Some u \<Rightarrow> ref_checked u)"

definition ref_newURL :: urlParser where
  "ref_newURL input base =
     (case base of
        None \<Rightarrow> ref_absolute input
      | Some b \<Rightarrow>
          (case ref_absolute b of
             None \<Rightarrow> None
           | Some baseUrlObj \<Rightarrow>
               (case ref_parse (stripC0 input) of
                  Some u \<Rightarrow> ref_checked u
                | None \<Rightarrow>
                    if opaquePath baseUrlObj then None
                    else if startsWith (stripC0 input) ''#''
                      then ref_checked (baseUrlObj\<lparr>fragment := Some (drop 1 (stripC0 input))\<rparr>)
                    else if startsWith (stripC0 input) ''/''
                            \<and> \<not> startsWith (stripC0 input) ''//''
                      then ref_absolute (protocol baseUrlObj @ ''//'' @ hostname baseUrlObj
                                         @ stripC0 input)
                    else None)))"

text \<open>Example inputs for the link classifier and the normalizer.\<close>

definition anchorTo :: "string \<Rightarrow> string \<Rightarrow> anchorElement" where
  "anchorTo h t = \<lparr> attr_href = h, attr_target = [], textContent = t \<rparr>"

definition scenarioLinks :: "anchorElement list" where
  "scenarioLinks =
     [anchorTo ''#'' ''Top'',
      anchorTo ''https://samehost.com/#section'' ''Section'',
      anchorTo ''https://samehost.com/other'' ''Other page'',
      anchorTo ''https://facebook.com/page'' ''Facebook'',
      anchorTo ''https://other.com'' ''Partner'']"

definition mailtoUrl :: URL where
  "mailtoUrl = \<lparr> protocol = ''mailto:'', username = [], password = [], hostname = [],
     port = [], pathname = ''team//list/'', searchParams = [], fragment = None,
     opaquePath = True \<rparr>"

definition shopUrl :: URL where
  "shopUrl = \<lparr> protocol = ''https:'', username = [], password = [],
     hostname = ''shop.example.com'', port = [], pathname = ''//a//b/'',
     searchParams = [(''utm_source'', ''x''), (''keep'', ''1''), (''UTM_medium'', ''y'')],
     fragment = Some ''top'', opaquePath = False \<rparr>"



section \<open>Properties of the scorer\<close>

lemma getGrade_cases:
  "(getGrade s = ''A'') = (90 \<le> s)"
  "(getGrade s = ''B'') = (80 \<le> s \<and> s < 90)"
  "(getGrade s = ''C'') = (70 \<le> s \<and> s < 80)"
  "(getGrade s = ''D'') = (60 \<le> s \<and> s < 70)"
  "(getGrade s = ''F'') = (s < 60)"
  by (auto simp: getGrade_def)

lemma getCategory_cases:
  "(getCategory s = ''Excellent'') = (85 \<le> s)"
  "(getCategory s = ''Good'') = (70 \<le> s \<and> s < 85)"
  "(getCategory s = ''Needs Improvement'') = (50 \<le> s \<and> s < 70)"
  "(getCategory s = ''Poor'') = (s < 50)"
  by (auto simp: getCategory_def)

lemma calculateScore_fields:
  "seo_page_score (calculateScore d) = max 0 (min 100 (fst (rawScoring d)))"
  "seo_grade (calculateScore d) = getGrade (seo_page_score (calculateScore d))"
  "seo_category (calculateScore d) = getCategory (seo_page_score (calculateScore d))"
  "issues (calculateScore d) = snd (rawScoring d)"
  "seo_issues_count (calculateScore d) = length (snd (rawScoring d))"
  by (simp_all add: calculateScore_def Let_def split: prod.splits)

text \<open>
  C1. For every feature record the final score is the running score clamped to \<open>[0, 100]\<close>,
  so it is a whole number between 0 and 100; the grade is A from 90, B from 80, C from 70,
  D from 60 and F below; the category is Excellent from 85, Good from 70, Needs Improvement
  from 50 and Poor below. At the boundaries: 90 gives A, 89 and 80 give B, 79 gives C,
  60 gives D and 59 gives F.
\<close>

theorem calculateScore_range_grade_category:
  "(let r = calculateScore d; s = seo_page_score r in
      0 \<le> s \<and> s \<le> 100 \<and> s = max 0 (min 100 (fst (rawScoring d)))
      \<and> (seo_grade r = ''A'') = (90 \<le> s)
      \<and> (seo_grade r = ''B'') = (80 \<le> s \<and> s < 90)
      \<and> (seo_grade r = ''C'') = (70 \<le> s \<and> s < 80)
      \<and> (seo_grade r = ''D'') = (60 \<le> s \<and> s < 70)
      \<and> (seo_grade r = ''F'') = (s < 60)
      \<and> (seo_category r = ''Excellent'') = (85 \<le> s)
      \<and> (seo_category r = ''Good'') = (70 \<le> s \<and> s < 85)
      \<and> (seo_category r = ''Needs Improvement'') = (50 \<le> s \<and> s < 70)
      \<and> (seo_category r = ''Poor'') = (s < 50))
    \<and> getGrade 90 = ''A'' \<and> getGrade 89 = ''B'' \<and> getGrade 80 = ''B''
    \<and> getGrade 79 = ''C'' \<and> getGrade 60 = ''D'' \<and> getGrade 59 = ''F''"
proof -
  have boundaries: "getGrade 90 = ''A'' \<and> getGrade 89 = ''B'' \<and> getGrade 80 = ''B''
      \<and> getGrade 79 = ''C'' \<and> getGrade 60 = ''D'' \<and> getGrade 59 = ''F''"
    by (simp add: getGrade_def)
  have range: "0 \<le> seo_page_score (calculateScore d) \<and> seo_page_score (calculateScore d) \<le> 100"
    by (simp add: calculateScore_fields(1))
  from range boundaries show ?thesis
    unfolding Let_def calculateScore_fields(2,3) getGrade_cases getCategory_cases
    by (simp add: calculateScore_fields(1))
qed

text \<open>
  A page with a good title and description, one H1 with H2 and H3 below it, and every
  technical signal present: the running score is 108 and the final score 100.
\<close>

theorem calculateScore_range_grade_category_witness:
  "fst (rawScoring page_full) = 108
   \<and> seo_page_score (calculateScore page_full) = 100
   \<and> seo_grade (calculateScore page_full) = ''A''
   \<and> seo_category (calculateScore page_full) = ''Excellent''"
proof -
  have raw: "fst (rawScoring page_full) = 108"
    by code_simp
  with calculateScore_range_grade_category [of page_full] show ?thesis
    by (simp add: Let_def)
qed

text \<open>
  C3 as stated: title length 5, no meta description, one H1 on the fallback heading path,
  HTTPS, no favicon, no OpenGraph, a viewport, 100 content-only words, no emphasis tags and no
  images give score 58, grade D and category Poor. The score is 58, but 58 is below the D
  threshold of 60 and above the Poor threshold of 50.
\<close>

theorem scenario_grade_D_Poor_counterexample:
  "seo_page_score (calculateScore page_short) = 58
   \<and> seo_grade (calculateScore page_short) \<noteq> ''D''
   \<and> seo_category (calculateScore page_short) \<noteq> ''Poor''"
proof -
  have "calculateScore page_short = \<lparr> seo_page_score = 58, seo_grade = ''F'',
      seo_category = ''Needs Improvement'', seo_issues_count = 5,
      notes_str = notes_str (calculateScore page_short),
      issues = issues (calculateScore page_short) \<rparr>"
    by code_simp
  then have "seo_page_score (calculateScore page_short) = 58"
    and "seo_grade (calculateScore page_short) = ''F''"
    and "seo_category (calculateScore page_short) = ''Needs Improvement''"
    by (metis scoreResult.select_convs(1), metis scoreResult.select_convs(2),
        metis scoreResult.select_convs(3))
  then show ?thesis
    by simp
qed

text \<open>
  C3 as amended: on such a record, with no H2, no robots directive, no bonus signal and no
  excess of script or style files, the score is 58, the grade F and the category
  Needs Improvement; the issues are the five penalties the scenario lists.
\<close>

theorem scenario_score_58_grade_F:
  assumes "titleLength d = 5" and "description d = []"
    and "headingScore d = None" and "h1Count d = 1" and "h2Count d = 0"
    and "hasHttps d" and "\<not> favicon d" and "\<not> hasOpenGraph d" and "viewport d"
    and "wordcountcontentonly d = 100" and "strongTags d = 0" and "imagesWithoutAlt d = 0"
    and "\<not> str_includes (toLowerCase (xRobots d)) ''noindex''"
    and "\<not> str_includes (toLowerCase (metaRobots d)) ''noindex''"
    and "\<not> str_includes (toLowerCase (xRobots d)) ''nofollow''"
    and "\<not> str_includes (toLowerCase (metaRobots d)) ''nofollow''"
    and "\<not> hasSchema d" and "\<not> hasJsonLd d" and "canonicalUrl d = []"
    and "\<not> hasHreflang d" and "\<not> appleTouchIcon d"
    and "javascriptFiles d \<le> 20" and "cssFiles d \<le> 10"
  shows "seo_page_score (calculateScore d) = 58
    \<and> seo_grade (calculateScore d) = ''F''
    \<and> seo_category (calculateScore d) = ''Needs Improvement''
    \<and> issues (calculateScore d) =
        [''missing/short title'', ''missing/short meta description'', ''no favicon'',
         ''no OpenGraph'', ''very low word count'']"
proof -
  have before: "scoreBeforeImages d =
      (58, [''missing/short title'', ''missing/short meta description'', ''no favicon'',
            ''no OpenGraph'', ''very low word count''])"
    using assms
    by (simp add: scoreBeforeImages_def titleOptimization_def metaDescription_def
        headingStructure_def technicalSeo_def contentQuality_def orElse_def)
  have images: "imagesOptimization d (scoreBeforeImages d) = scoreBeforeImages d"
    using assms by (simp add: before imagesOptimization_def orElse_def)
  have "rawScoring d = scoreAfterImages d (scoreBeforeImages d)"
    by (simp only: rawScoring_def images)
  then have raw: "rawScoring d =
      (58, [''missing/short title'', ''missing/short meta description'', ''no favicon'',
            ''no OpenGraph'', ''very low word count''])"
    using assms
    by (simp add: before scoreAfterImages_def advancedBonuses_def
        performancePenalties_def orElse_def)
  show ?thesis
    by (simp add: calculateScore_def raw getGrade_def getCategory_def)
qed

theorem scenario_score_58_grade_F_witness:
  "seo_page_score (calculateScore page_scenario) = 58
   \<and> seo_grade (calculateScore page_scenario) = ''F''
   \<and> seo_category (calculateScore page_scenario) = ''Needs Improvement''
   \<and> issues (calculateScore page_scenario) =
       [''missing/short title'', ''missing/short meta description'', ''no favicon'',
        ''no OpenGraph'', ''very low word count'']"
proof -
  have robots:
    "\<not> str_includes (toLowerCase (xRobots page_scenario)) ''noindex''"
    "\<not> str_includes (toLowerCase (metaRobots page_scenario)) ''noindex''"
    "\<not> str_includes (toLowerCase (xRobots page_scenario)) ''nofollow''"
    "\<not> str_includes (toLowerCase (metaRobots page_scenario)) ''nofollow''"
    by code_simp+
  show ?thesis
    by (rule scenario_score_58_grade_F) (simp_all add: robots, simp_all add: page_scenario_def)
qed

subsection \<open>The image penalty\<close>

lemma scoreAfterImages_fst:
  "fst (scoreAfterImages d (s, i)) = s + fst (scoreAfterImages d (0, []))"
  by (simp add: scoreAfterImages_def performancePenalties_def Let_def)

lemma scoreAfterImages_snd: "set i \<subseteq> set (snd (scoreAfterImages d (s, i)))"
  by (auto simp add: scoreAfterImages_def performancePenalties_def Let_def)

lemma steps_ignore_images:
  "titleOptimization (d\<lparr>imagesWithoutAlt := n\<rparr>) = titleOptimization d"
  "metaDescription (d\<lparr>imagesWithoutAlt := n\<rparr>) = metaDescription d"
  "headingStructure (d\<lparr>imagesWithoutAlt := n\<rparr>) = headingStructure d"
  "technicalSeo (d\<lparr>imagesWithoutAlt := n\<rparr>) = technicalSeo d"
  "contentQuality (d\<lparr>imagesWithoutAlt := n\<rparr>) = contentQuality d"
  "scoreAfterImages (d\<lparr>imagesWithoutAlt := n\<rparr>) = scoreAfterImages d"
  by (simp_all add: titleOptimization_def metaDescription_def headingStructure_def
      technicalSeo_def contentQuality_def scoreAfterImages_def advancedBonuses_def
      performancePenalties_def cong: option.case_cong)

lemma scoreBeforeImages_ignores_images:
  "scoreBeforeImages (d\<lparr>imagesWithoutAlt := n\<rparr>) = scoreBeforeImages d"
  by (simp add: scoreBeforeImages_def steps_ignore_images)

lemma imagesOptimization_positive:
  "0 < imagesWithoutAlt d \<Longrightarrow>
   imagesOptimization d (s, i) =
     (s - min 5 (imagesWithoutAlt d),
      i @ [numberToString (imagesWithoutAlt d) @ '' images without alt text''])"
  by (simp add: imagesOptimization_def orElse_def Let_def)

lemma imagesOptimization_zero: "imagesOptimization (d\<lparr>imagesWithoutAlt := 0\<rparr>) x = x"
  by (cases x) (simp add: imagesOptimization_def orElse_def Let_def)

text \<open>
  C7. With \<open>n > 0\<close> images missing alt text the running score is lower by \<open>min n 5\<close>, never
  by more than 5, than on the same record without such images, and the issue list holds the
  label with the full count \<open>n\<close>.
\<close>

theorem image_penalty_capped:
  assumes "0 < imagesWithoutAlt d"
  shows "fst (rawScoring d)
      = fst (rawScoring (d\<lparr>imagesWithoutAlt := 0\<rparr>)) - min (imagesWithoutAlt d) 5
    \<and> fst (rawScoring (d\<lparr>imagesWithoutAlt := 0\<rparr>)) - 5 \<le> fst (rawScoring d)
    \<and> numberToString (imagesWithoutAlt d) @ '' images without alt text''
        \<in> set (issues (calculateScore d))"
proof -
  obtain s i where before: "scoreBeforeImages d = (s, i)"
    by (cases "scoreBeforeImages d")
  let ?label = "numberToString (imagesWithoutAlt d) @ '' images without alt text''"
  have with_images:
    "rawScoring d = scoreAfterImages d (s - min 5 (imagesWithoutAlt d), i @ [?label])"
    using assms by (simp add: rawScoring_def before imagesOptimization_positive)
  have without_images: "rawScoring (d\<lparr>imagesWithoutAlt := 0\<rparr>) = scoreAfterImages d (s, i)"
    by (simp add: rawScoring_def scoreBeforeImages_ignores_images steps_ignore_images
        imagesOptimization_zero before)
  have difference: "fst (rawScoring d)
      = fst (rawScoring (d\<lparr>imagesWithoutAlt := 0\<rparr>)) - min (imagesWithoutAlt d) 5"
  proof -
    have "fst (scoreAfterImages d (s - min 5 (imagesWithoutAlt d), i @ [?label]))
        = s - min 5 (imagesWithoutAlt d) + fst (scoreAfterImages d (0, []))"
      by (rule scoreAfterImages_fst)
    moreover have "fst (scoreAfterImages d (s, i)) = s + fst (scoreAfterImages d (0, []))"
      by (rule scoreAfterImages_fst)
    ultimately show ?thesis
      unfolding with_images without_images by (simp add: min.commute)
  qed
  have "set (i @ [?label]) \<subseteq> set (snd (rawScoring d))"
    unfolding with_images by (rule scoreAfterImages_snd)
  then have label: "?label \<in> set (issues (calculateScore d))"
    by (simp add: calculateScore_fields)
  from difference label show ?thesis
    by simp
qed

text \<open>Ten images without alt text cost exactly 5 points and are reported as ten.\<close>

theorem image_penalty_capped_witness:
  "fst (rawScoring page_ten_images) = fst (rawScoring page_full) - 5
   \<and> fst (rawScoring page_ten_images) = 103
   \<and> ''10 images without alt text'' \<in> set (issues (calculateScore page_ten_images))"
proof -
  have positive: "0 < imagesWithoutAlt page_ten_images"
    by (simp add: page_ten_images_def)
  have label: "numberToString (imagesWithoutAlt page_ten_images) = ''10''"
    by code_simp
  have same: "page_ten_images\<lparr>imagesWithoutAlt := 0\<rparr> = page_full"
    by (simp add: page_ten_images_def page_full_def)
  have full: "fst (rawScoring page_full) = 108"
    by code_simp
  from image_penalty_capped [OF positive] show ?thesis
    unfolding label same full by (simp add: page_ten_images_def)
qed

subsection \<open>Monotonicity of grade and category\<close>

text \<open>
  C10. Under the orderings F < D < C < B < A and Poor < Needs Improvement < Good < Excellent,
  a score that is not smaller has a grade and a category that are not worse.
\<close>

theorem grade_category_monotone:
  assumes "s1 \<le> s2"
  shows "gradeRank (getGrade s1) \<le> gradeRank (getGrade s2)
    \<and> categoryRank (getCategory s1) \<le> categoryRank (getCategory s2)
    \<and> gradeRank ''F'' < gradeRank ''D'' \<and> gradeRank ''D'' < gradeRank ''C''
    \<and> gradeRank ''C'' < gradeRank ''B'' \<and> gradeRank ''B'' < gradeRank ''A''
    \<and> categoryRank ''Poor'' < categoryRank ''Needs Improvement''
    \<and> categoryRank ''Needs Improvement'' < categoryRank ''Good''
    \<and> categoryRank ''Good'' < categoryRank ''Excellent''"
proof -
  have grades: "gradeRank (getGrade s1) \<le> gradeRank (getGrade s2)"
    using assms by (simp add: getGrade_def gradeRank_def)
  have categories: "categoryRank (getCategory s1) \<le> categoryRank (getCategory s2)"
    using assms by (simp add: getCategory_def categoryRank_def)
  from grades categories show ?thesis
    by (simp add: gradeRank_def categoryRank_def)
qed

theorem grade_category_monotone_witness:
  "gradeRank (getGrade 59) \<le> gradeRank (getGrade 84)
   \<and> categoryRank (getCategory 59) \<le> categoryRank (getCategory 84)
   \<and> getGrade 59 = ''F'' \<and> getGrade 84 = ''B''
   \<and> getCategory 59 = ''Needs Improvement'' \<and> getCategory 84 = ''Good''"
proof -
  have "(59::int) \<le> 84"
    by simp
  from grade_category_monotone [OF this] show ?thesis
    by (simp add: getGrade_def getCategory_def)
qed

section \<open>Properties of the sitemap walker\<close>

lemma countNested_all_visited:
  "set nested \<subseteq> visited \<Longrightarrow>
   countNested get nested depth visited sofar = (sofar, visited)"
  by (induction nested arbitrary: sofar) simp_all

lemma walk_index:
  assumes "0 < maxDepth" and "start \<notin> visited" and "get start = Some r"
    and "isIndexListing r urls"
  shows "countTotalUrlsInSitemaps get start maxDepth visited
     = countNested get urls (maxDepth - 1) (insert start visited) 0"
  using assms by (auto simp: isIndexListing_def)

lemma walk_circular:
  assumes "0 < maxDepth" and "start \<notin> visited" and "get start = Some r"
    and "isIndexListing r urls" and "set urls \<subseteq> insert start visited"
  shows "countTotalUrlsInSitemaps get start maxDepth visited = (0, insert start visited)"
proof -
  have "countTotalUrlsInSitemaps get start maxDepth visited
      = countNested get urls (maxDepth - 1) (insert start visited) 0"
    using assms(1-4) by (rule walk_index)
  also have "\<dots> = (0, insert start visited)"
    using assms(5) by (rule countNested_all_visited)
  finally show ?thesis .
qed

text \<open>
  A chain of indexes \<open>u 0\<close>, \<open>u 1\<close>, ... in which each lists the next: with the bound \<open>d\<close>
  the walk from level \<open>k\<close> fetches the levels \<open>k\<close> to \<open>k + d - 1\<close> and returns 0, whatever
  lies below.
\<close>

lemma walk_chain:
  assumes chain: "\<forall>i \<in> {..<n}. listsNext get u i"
    and different: "distinct (map u [0..<Suc n])"
  shows "k + d \<le> n \<Longrightarrow>
    countTotalUrlsInSitemaps get (u k) (int d) (u ` {..<k}) = (0, u ` {..<k + d})"
proof (induction d arbitrary: k)
  case 0
  then show ?case
    by simp
next
  case (Suc d)
  then have k: "k < n" and below: "Suc k + d \<le> n"
    by simp_all
  from chain k obtain r where r: "get (u k) = Some r" "isIndexListing r [u (Suc k)]"
    by (auto simp: listsNext_def split: option.splits)
  have levels: "set [0..<Suc n] = {..n}"
    by auto
  from different have "inj_on u (set [0..<Suc n])"
    by (simp only: distinct_map)
  then have injective: "inj_on u {..n}"
    by (simp only: levels)
  have fresh: "u k \<notin> u ` {..<k}"
  proof
    assume "u k \<in> u ` {..<k}"
    then obtain j where j: "j < k" "u j = u k"
      by auto
    with k have "j \<in> {..n}" "k \<in> {..n}"
      by simp_all
    with injective j(2) have "j = k"
      by (simp add: inj_on_def)
    with j(1) show False
      by simp
  qed
  have visited: "insert (u k) (u ` {..<k}) = u ` {..<Suc k}"
    by (auto simp: less_Suc_eq)
  have "countTotalUrlsInSitemaps get (u k) (int (Suc d)) (u ` {..<k})
      = countNested get [u (Suc k)] (int (Suc d) - 1) (insert (u k) (u ` {..<k})) 0"
    using r fresh by (intro walk_index) simp_all
  also have "\<dots> = countNested get [u (Suc k)] (int d) (u ` {..<Suc k}) 0"
    by (simp add: visited)
  also have "\<dots> = (0, u ` {..<Suc k + d})"
    using Suc.IH [OF below] by simp
  finally show ?case
    by simp
qed

text \<open>
  C5. The walk is defined on every input: each recursive call lowers the depth bound, and the
  loop over an index shortens its list. A URL in the visited set contributes 0 and leaves the
  set as it is, as does a bound that is not positive; so an index whose sitemaps have all been
  visited, itself included, is fetched once and adds nothing. In a chain of \<open>n\<close> nested
  indexes the walk with a bound \<open>d\<close> of at most \<open>n\<close> fetches \<open>d\<close> levels and returns 0: nested
  15 deep under the bound 10, the levels 0 to 9.
\<close>

theorem sitemap_walk_terminates:
  "countTotalUrlsInSitemaps_countNested_dom (Inl (get, start, maxDepth, visited))
   \<and> (start \<in> visited \<longrightarrow>
        countTotalUrlsInSitemaps get start maxDepth visited = (0, visited))
   \<and> (maxDepth \<le> 0 \<longrightarrow>
        countTotalUrlsInSitemaps get start maxDepth visited = (0, visited))
   \<and> (set nested \<subseteq> visited \<longrightarrow>
        countNested get nested maxDepth visited sofar = (sofar, visited))
   \<and> (0 < maxDepth \<and> start \<notin> visited \<and> get start = Some r \<and> isIndexListing r urls
        \<and> set urls \<subseteq> insert start visited \<longrightarrow>
        countTotalUrlsInSitemaps get start maxDepth visited = (0, insert start visited))
   \<and> ((\<forall>i \<in> {..<n}. listsNext get u i) \<and> distinct (map u [0..<Suc n]) \<and> k + d \<le> n \<longrightarrow>
        countTotalUrlsInSitemaps get (u k) (int d) (u ` {..<k}) = (0, u ` {..<k + d}))"
proof -
  have "All countTotalUrlsInSitemaps_countNested_dom"
    by (relation "measures
          [\<lambda>call. case call of Inl (get, u, d, V) \<Rightarrow> 2 * nat d
                            | Inr (get, us, d, V, t) \<Rightarrow> 2 * nat d + 1,
           \<lambda>call. case call of Inl (get, u, d, V) \<Rightarrow> 0
                            | Inr (get, us, d, V, t) \<Rightarrow> length us]")
      auto
  then have defined: "countTotalUrlsInSitemaps_countNested_dom
      (Inl (get, start, maxDepth, visited))"
    by simp
  have circular: "0 < maxDepth \<and> start \<notin> visited \<and> get start = Some r
      \<and> isIndexListing r urls \<and> set urls \<subseteq> insert start visited \<longrightarrow>
      countTotalUrlsInSitemaps get start maxDepth visited = (0, insert start visited)"
    using walk_circular by blast
  have chain: "(\<forall>i \<in> {..<n}. listsNext get u i) \<and> distinct (map u [0..<Suc n])
      \<and> k + d \<le> n \<longrightarrow>
      countTotalUrlsInSitemaps get (u k) (int d) (u ` {..<k}) = (0, u ` {..<k + d})"
    using walk_chain by blast
  from defined circular chain show ?thesis
    by (simp add: countNested_all_visited)
qed

text \<open>
  The self-referencing index is fetched once and gives 0 under the default bound. The index
  nested 15 levels deep gives 0 under the default bound, with levels 0 to 9 visited, and
  reaches its leaf only under a bound of 16.
\<close>

theorem sitemap_walk_terminates_witness:
  "countTotalUrlsInSitemaps_default selfReferencing selfUrl = (0, {selfUrl})
   \<and> countTotalUrlsInSitemaps selfReferencing selfUrl 9 {selfUrl} = (0, {selfUrl})
   \<and> countTotalUrlsInSitemaps selfReferencing selfUrl 0 {} = (0, {})
   \<and> countTotalUrlsInSitemaps_default nested15 (level 0) = (0, level ` {..<10})
   \<and> fst (countTotalUrlsInSitemaps nested15 (level 0) 16 {}) = countUrlsInSitemap leafDoc"
proof -
  have listed: "selfReferencing selfUrl = Some (xmlResponse (indexOf selfUrl))"
    "isIndexListing (xmlResponse (indexOf selfUrl)) [selfUrl]"
    by code_simp+
  have chain: "\<forall>i \<in> {..<15}. listsNext nested15 level i"
    by code_simp
  have different: "distinct (map level [0..<Suc 15])"
    by code_simp
  have bound16: "fst (countTotalUrlsInSitemaps nested15 (level 0) 16 {})
      = countUrlsInSitemap leafDoc"
    by code_simp
  have self: "countTotalUrlsInSitemaps selfReferencing selfUrl 10 {} = (0, {selfUrl})"
    using sitemap_walk_terminates
      [where get = selfReferencing and start = selfUrl and maxDepth = 10 and visited = "{}"
         and r = "xmlResponse (indexOf selfUrl)" and urls = "[selfUrl]"]
      listed
    by simp
  have again: "countTotalUrlsInSitemaps selfReferencing selfUrl 9 {selfUrl} = (0, {selfUrl})"
    using sitemap_walk_terminates
      [where get = selfReferencing and start = selfUrl and maxDepth = 9
         and visited = "{selfUrl}"]
    by simp
  have zero: "countTotalUrlsInSitemaps selfReferencing selfUrl 0 {} = (0, {})"
    using sitemap_walk_terminates
      [where get = selfReferencing and start = selfUrl and maxDepth = 0 and visited = "{}"]
    by simp
  have nested: "countTotalUrlsInSitemaps nested15 (level 0) (int 10) (level ` {..<0})
      = (0, level ` {..<0 + 10})"
    using sitemap_walk_terminates
      [where get = nested15 and u = level and n = 15 and k = 0 and d = 10]
      chain different
    by simp
  from self again zero nested bound16 show ?thesis
    by (simp add: countTotalUrlsInSitemaps_default_def)
qed

section \<open>Properties of the domain aggregator\<close>

lemma rounded_of_nothing:
  "roundedPercentage 0 0 = NaN" "roundedAverage 0 0 = NaN"
  by (simp_all add: roundedPercentage_def roundedAverage_def js_div_def)

text \<open>
  C2 asks for 0 in every percentage and average on the empty list of page results. The call
  returns without an error, and the average score, which the source guards, is 0; every
  percentage and the four unguarded averages are \<open>Math.round\<close> of \<open>0 / 0\<close>, which is
  \<open>NaN\<close>.
\<close>

theorem calculateDomainAnalysis_empty_NaN:
  "(case calculateDomainAnalysis newURL probe [] sitemaps of
      Inl e \<Rightarrow> False
    | Inr d \<Rightarrow>
        total_pages_analyzed d = 0
        \<and> average_seo_score d = Num 0 \<and> domain_seo_score d = Num 0
        \<and> pages_with_h1_percentage d = NaN
        \<and> pages_with_meta_description_percentage d = NaN
        \<and> pages_with_errors_percentage d = NaN
        \<and> average_title_length d = NaN
        \<and> average_description_length d = NaN
        \<and> average_words_per_page d = NaN
        \<and> average_internal_links d = NaN
        \<and> pages_with_successful_status_percentage d = NaN
        \<and> pages_with_redirect_status_percentage d = NaN
        \<and> pages_with_error_status_percentage d = NaN
        \<and> pages_with_opengraph_percentage d = NaN
        \<and> pages_with_opengraph_title_percentage d = NaN
        \<and> pages_with_opengraph_description_percentage d = NaN
        \<and> pages_with_opengraph_image_percentage d = NaN)"
  by (simp add: calculateDomainAnalysis_def rounded_of_nothing List.map_filter_simps
      js_div_def floor_eq_iff Let_def)

text \<open>
  The same on a concrete call: the reference parser, a certificate probe that returns
  nothing of interest and no sitemap analysis.
\<close>

theorem calculateDomainAnalysis_empty_NaN_witness:
  "(case calculateDomainAnalysis ref_newURL (\<lambda>domain. ()) [] None of
      Inl e \<Rightarrow> False
    | Inr d \<Rightarrow>
        average_seo_score d = Num 0
        \<and> pages_with_h1_percentage d = NaN
        \<and> pages_with_successful_status_percentage d = NaN
        \<and> average_title_length d = NaN
        \<and> average_internal_links d = NaN)"
  using calculateDomainAnalysis_empty_NaN [of ref_newURL "\<lambda>domain. ()" None]
  by (simp split: sum.splits)

section \<open>Properties of the link classifier\<close>

lemma endsWith_iff: "endsWith s t = (\<exists>p. s = p @ t)"
proof
  assume "endsWith s t"
  then have "s = take (length s - length t) s @ t"
    by (metis append_take_drop_id endsWith_def)
  then show "\<exists>p. s = p @ t" ..
next
  assume "\<exists>p. s = p @ t"
  then show "endsWith s t"
    by (auto simp: endsWith_def)
qed

lemma visitLink_total:
  "totalAnchorTextLength (visitLink newURL toString baseUrl scan link)
     = totalAnchorTextLength scan + length (trim (textContent link))"
  by (simp add: visitLink_def Let_def split: option.splits)

lemma scan_total:
  "totalAnchorTextLength (foldl (visitLink newURL toString baseUrl) scan links)
     = totalAnchorTextLength scan + sum_list (map (\<lambda>l. length (trim (textContent l))) links)"
  by (induction links arbitrary: scan) (simp_all add: visitLink_total)

lemma analyzeLinks_fields:
  "internalLinksCount (analyzeLinks newURL toString check links baseUrl)
     = internalLinksCount (foldl (visitLink newURL toString baseUrl) emptyScan links)"
  "externalLinksCount (analyzeLinks newURL toString check links baseUrl)
     = externalLinksCount (foldl (visitLink newURL toString baseUrl) emptyScan links)"
  "averageAnchorTextLength (analyzeLinks newURL toString check links baseUrl)
     = (if length links > 0
        then Math_round (js_div
               (of_nat (totalAnchorTextLength
                  (foldl (visitLink newURL toString baseUrl) emptyScan links)))
               (of_nat (length links)))
        else Num 0)"
  by (simp_all add: analyzeLinks_def Let_def)

text \<open>
  C4. In the claim a link is dropped as a same-page fragment link when its \<open>href\<close> resolves
  to the base URL plus only a hash, or ends in a bare \<open>#\<close>, and the comment above the test in
  the source says as much (fragments pointing to the same page). The test \<open>isHashOnlyLink\<close>
  of the source also holds of every link with a hash whose path is \<open>/\<close> or the path of the
  page, whatever its host. On the page \<open>https://samehost.com/about\<close> the link \<open>/#contact\<close>
  leads to the root page of the same host and \<open>https://other.com/#top\<close> to another host:
  the first is internal and the second external in the words of the claim, and the code counts
  neither. On the scenario of the claim the classes are as claimed and the counts are 1 and 1.
\<close>

theorem analyzeLinks_drops_links_to_other_pages:
  "map (linkClassOf_spec ref_newURL ref_toString ''https://samehost.com/about'')
       [anchorTo ''/#contact'' ''Contact'', anchorTo ''https://other.com/#top'' ''Partner'']
     = [Internal, External]
   \<and> internalLinksCount (analyzeLinks ref_newURL ref_toString id
       [anchorTo ''/#contact'' ''Contact'', anchorTo ''https://other.com/#top'' ''Partner'']
       ''https://samehost.com/about'') = 0
   \<and> externalLinksCount (analyzeLinks ref_newURL ref_toString id
       [anchorTo ''/#contact'' ''Contact'', anchorTo ''https://other.com/#top'' ''Partner'']
       ''https://samehost.com/about'') = 0
   \<and> map (linkClassOf_spec ref_newURL ref_toString ''https://samehost.com/'') scenarioLinks
     = [HashOnly, HashOnly, Internal, Social, External]
   \<and> internalLinksCount (analyzeLinks ref_newURL ref_toString id scenarioLinks
       ''https://samehost.com/'') = 1
   \<and> externalLinksCount (analyzeLinks ref_newURL ref_toString id scenarioLinks
       ''https://samehost.com/'') = 1"
  by code_simp

text \<open>
  C6. The average anchor text length is the sum of the lengths of the trimmed texts of all
  anchors, whatever becomes of their \<open>href\<close>, divided by the number of anchors and rounded to
  the nearest integer (half up); without anchors it is 0.
\<close>

theorem average_anchor_text_length:
  "averageAnchorTextLength (analyzeLinks newURL toString check links baseUrl)
     = (if links = [] then Num 0
        else Num (of_int (round
               (of_nat (sum_list (map (\<lambda>l. length (trim (textContent l))) links))
                / of_nat (length links) :: rat))))"
  by (simp add: analyzeLinks_fields scan_total emptyScan_def js_div_def round_def)

text \<open>
  Four anchors with texts of 3, 9, 2 and 0 characters after trimming, the first a dropped
  fragment link whose text is padded with no-break spaces and the last without \<open>href\<close>: the
  average is 14 / 4 = 3.5, rounded to 4.
\<close>

theorem average_anchor_text_length_witness:
  "averageAnchorTextLength (analyzeLinks ref_newURL ref_toString id
       [anchorTo ''#'' (CHR 0xA0 # ''Top'' @ [CHR 0xA0]), anchorTo ''/other'' '' Read more '',
        anchorTo ''https://other.com'' ''Go'', anchorTo [] []]
       ''https://samehost.com/'') = Num 4
   \<and> internalLinksCount (analyzeLinks ref_newURL ref_toString id
       [anchorTo ''#'' (CHR 0xA0 # ''Top'' @ [CHR 0xA0]), anchorTo ''/other'' '' Read more '',
        anchorTo ''https://other.com'' ''Go'', anchorTo [] []]
       ''https://samehost.com/'') = 1"
proof -
  let ?links = "[anchorTo ''#'' (CHR 0xA0 # ''Top'' @ [CHR 0xA0]),
        anchorTo ''/other'' '' Read more '',
        anchorTo ''https://other.com'' ''Go'', anchorTo [] []]"
  have lengths: "map (\<lambda>l. length (trim (textContent l))) ?links = [3, 9, 2, 0]"
    by code_simp
  have rounded: "round (7 / 2 :: rat) = 4"
    by (simp add: round_def)
  have internal: "internalLinksCount (analyzeLinks ref_newURL ref_toString id ?links
       ''https://samehost.com/'') = 1"
    by code_simp
  from average_anchor_text_length
    [of ref_newURL ref_toString id ?links "''https://samehost.com/''"]
  have "averageAnchorTextLength (analyzeLinks ref_newURL ref_toString id ?links
       ''https://samehost.com/'') = Num 4"
    unfolding lengths by (simp add: rounded)
  with internal show ?thesis
    by simp
qed

section \<open>Properties of the URL normalizer\<close>

lemma collapseSlashes_no_leading:
  "s = [] \<or> hd s \<noteq> CHR ''/'' \<Longrightarrow> collapseSlashes s = [] \<or> hd (collapseSlashes s) \<noteq> CHR ''/''"
  by (cases s) auto

lemma dropWhile_slash_no_leading:
  "dropWhile (\<lambda>x. x = CHR ''/'') cs = [] \<or> hd (dropWhile (\<lambda>x. x = CHR ''/'') cs) \<noteq> CHR ''/''"
  using hd_dropWhile [of "\<lambda>x. x = CHR ''/''" cs] by auto

lemma noRepeatedSlash_Cons:
  "noRepeatedSlash (c # s) = ((c = CHR ''/'' \<longrightarrow> s = [] \<or> hd s \<noteq> CHR ''/'') \<and> noRepeatedSlash s)"
  by (cases s) auto

lemma noRepeatedSlash_collapse: "noRepeatedSlash (collapseSlashes s)"
proof (induction s rule: collapseSlashes.induct)
  case 1
  show ?case by simp
next
  case (2 c cs)
  show ?case
  proof (cases "c = CHR ''/''")
    case True
    with 2 have "noRepeatedSlash (collapseSlashes (dropWhile (\<lambda>x. x = CHR ''/'') cs))" by simp
    moreover have "collapseSlashes (dropWhile (\<lambda>x. x = CHR ''/'') cs) = []
        \<or> hd (collapseSlashes (dropWhile (\<lambda>x. x = CHR ''/'') cs)) \<noteq> CHR ''/''"
      by (rule collapseSlashes_no_leading) (rule dropWhile_slash_no_leading)
    ultimately show ?thesis using True by (simp add: noRepeatedSlash_Cons)
  next
    case False
    with 2 show ?thesis by (simp add: noRepeatedSlash_Cons)
  qed
qed


lemma noRepeatedSlash_append:
  "noRepeatedSlash (s @ t) \<Longrightarrow> noRepeatedSlash s"
  by (induction s rule: noRepeatedSlash.induct) auto

lemma noRepeatedSlash_butlast: "noRepeatedSlash s \<Longrightarrow> noRepeatedSlash (butlast s)"
  by (cases s rule: rev_cases) (auto dest: noRepeatedSlash_append)

lemma noRepeatedSlash_last_two:
  "noRepeatedSlash (s @ [CHR ''/'']) \<Longrightarrow> s \<noteq> [] \<Longrightarrow> last s \<noteq> CHR ''/''"
  by (induction s rule: noRepeatedSlash.induct) (auto split: if_splits)

lemma endsWith_slash: "endsWith s ''/'' = (s \<noteq> [] \<and> last s = CHR ''/'')"
  by (cases s rule: rev_cases) (auto simp: endsWith_iff)


lemma dropOneTrailingSlash_stable:
  assumes "noRepeatedSlash p"
  shows "noRepeatedSlash (dropOneTrailingSlash p) \<and> \<not> (dropOneTrailingSlash p \<noteq> ''/'' \<and> endsWith (dropOneTrailingSlash p) ''/'')"
proof (cases "p \<noteq> ''/'' \<and> endsWith p ''/''")
  case False
  then have "dropOneTrailingSlash p = p" by (auto simp: dropOneTrailingSlash_def)
  with assms False show ?thesis by auto
next
  case True
  then obtain q where p: "p = q @ ''/''" and q: "q \<noteq> []"
    by (cases p rule: rev_cases) (auto simp: endsWith_slash)
  with assms have "last q \<noteq> CHR ''/''" by (auto dest: noRepeatedSlash_last_two)
  with True assms p q show ?thesis
    by (auto simp: dropOneTrailingSlash_def endsWith_slash dest: noRepeatedSlash_append)
qed

lemma normalizeUrlObject_fields:
  "fragment (normalizeUrlObject u) = None"
  "searchParams (normalizeUrlObject u) = filter (\<lambda>(key, v). \<not> isUtmKey key) (searchParams u)"
  "hostname (normalizeUrlObject u) = (if opaquePath u then hostname u else toLowerCase (hostname u))"
  "pathname (normalizeUrlObject u) = (if opaquePath u then pathname u else dropOneTrailingSlash (collapseSlashes (pathname u)))"
  "protocol (normalizeUrlObject u) = protocol u"
  "username (normalizeUrlObject u) = username u"
  "password (normalizeUrlObject u) = password u"
  "port (normalizeUrlObject u) = port u"
  "opaquePath (normalizeUrlObject u) = opaquePath u"
  by (simp_all add: normalizeUrlObject_def Let_def set_hash_empty_def set_search_def
      set_hostname_def set_pathname_def dropOneTrailingSlash_def)





text \<open>
  C8 as stated, for every parseable URL. A \<open>mailto:\<close> URL parses and has an opaque path,
  on which the platform ignores the assignments to \<open>hostname\<close> and \<open>pathname\<close>: the
  repeated separators and the trailing separator stay.
\<close>

theorem normalize_opaque_path_counterexample:
  "ref_newURL ''mailto:team//list/'' None = Some mailtoUrl
   \<and> pathname (normalizeUrlObject mailtoUrl) = ''team//list/''
   \<and> \<not> noRepeatedSlash (pathname (normalizeUrlObject mailtoUrl))
   \<and> endsWith (pathname (normalizeUrlObject mailtoUrl)) ''/''
   \<and> normalize_url ref_newURL ref_toString ''mailto:team//list/'' = ''mailto:team//list/''"
  by code_simp

text \<open>
  C8 as amended. For every URL that parses, \<open>normalize\<close> returns the serialisation of the
  URL object with the fragment removed and with exactly the query entries whose key does not
  start with \<open>utm_\<close> (in any letter case), in their order. If the path is hierarchical, the
  host is lower-cased and the path is the old one with every run of separators collapsed to
  one and then one trailing separator dropped unless the path is the root: it has no repeated
  separator and ends in a separator only if it is \<open>/\<close>. Scheme, credentials and port
  stay. The example URL keeps \<open>keep=1\<close> and loses \<open>utm_source\<close>.
\<close>

theorem normalize_removes_utm_only:
  assumes "rawUrl \<noteq> []" and "newURL (trim rawUrl) None = Some u"
  shows "normalize_url newURL toString rawUrl = toString (normalizeUrlObject u)
    \<and> fragment (normalizeUrlObject u) = None
    \<and> searchParams (normalizeUrlObject u)
        = filter (\<lambda>(key, v). toLowerCase (take 4 key) \<noteq> ''utm_'') (searchParams u)
    \<and> (\<not> opaquePath u \<longrightarrow>
          hostname (normalizeUrlObject u) = toLowerCase (hostname u)
          \<and> pathname (normalizeUrlObject u)
              = dropOneTrailingSlash (collapseSlashes (pathname u))
          \<and> noRepeatedSlash (pathname (normalizeUrlObject u))
          \<and> (pathname (normalizeUrlObject u) = ''/''
               \<or> \<not> endsWith (pathname (normalizeUrlObject u)) ''/''))
    \<and> protocol (normalizeUrlObject u) = protocol u
    \<and> username (normalizeUrlObject u) = username u
    \<and> password (normalizeUrlObject u) = password u
    \<and> port (normalizeUrlObject u) = port u
    \<and> normalize_url ref_newURL ref_toString ''https://a.com/?utm_source=x&keep=1''
        = ''https://a.com/?keep=1''"
proof -
  have result: "normalize_url newURL toString rawUrl = toString (normalizeUrlObject u)"
    using assms by (simp add: normalize_url_def)
  have params: "searchParams (normalizeUrlObject u)
      = filter (\<lambda>(key, v). toLowerCase (take 4 key) \<noteq> ''utm_'') (searchParams u)"
    by (simp add: normalizeUrlObject_fields isUtmKey_def)
  have path: "noRepeatedSlash (dropOneTrailingSlash (collapseSlashes (pathname u)))
      \<and> (dropOneTrailingSlash (collapseSlashes (pathname u)) = ''/''
           \<or> \<not> endsWith (dropOneTrailingSlash (collapseSlashes (pathname u))) ''/'')"
    using dropOneTrailingSlash_stable [OF noRepeatedSlash_collapse [of "pathname u"]]
    by blast
  have example: "normalize_url ref_newURL ref_toString ''https://a.com/?utm_source=x&keep=1''
      = ''https://a.com/?keep=1''"
    by code_simp
  from result params path example show ?thesis
    by (simp add: normalizeUrlObject_fields)
qed

text \<open>
  A URL with an upper-case host, repeated and trailing separators, two tracking parameters
  and a fragment.
\<close>

theorem normalize_removes_utm_only_witness:
  "ref_newURL
      (trim '' https://Shop.Example.com//a//b/?utm_source=x&keep=1&UTM_medium=y#top '') None
     = Some shopUrl
   \<and> searchParams (normalizeUrlObject shopUrl) = [(''keep'', ''1'')]
   \<and> pathname (normalizeUrlObject shopUrl) = ''/a/b''
   \<and> normalize_url ref_newURL ref_toString
        '' https://Shop.Example.com//a//b/?utm_source=x&keep=1&UTM_medium=y#top ''
     = ''https://shop.example.com/a/b?keep=1''"
proof -
  let ?raw = "'' https://Shop.Example.com//a//b/?utm_source=x&keep=1&UTM_medium=y#top ''"
  have nonempty: "?raw \<noteq> []"
    by simp
  have parsed: "ref_newURL (trim ?raw) None = Some shopUrl"
    by code_simp
  have params: "filter (\<lambda>(key, v). toLowerCase (take 4 key) \<noteq> ''utm_'') (searchParams shopUrl)
      = [(''keep'', ''1'')]"
    by code_simp
  have path: "dropOneTrailingSlash (collapseSlashes (pathname shopUrl)) = ''/a/b''"
    by code_simp
  have hierarchical: "\<not> opaquePath shopUrl"
    by (simp add: shopUrl_def)
  have serialised: "ref_toString (normalizeUrlObject shopUrl)
      = ''https://shop.example.com/a/b?keep=1''"
    by code_simp
  from normalize_removes_utm_only
    [where rawUrl = ?raw and newURL = ref_newURL and u = shopUrl and toString = ref_toString,
      OF nonempty parsed]
    hierarchical
  show ?thesis
    unfolding params path serialised parsed by simp
qed

subsection \<open>The round trip of the reference instance\<close>



















lemma ref_validHost_nonempty: "ref_validHost h \<Longrightarrow> h \<noteq> []"
  by (auto simp: ref_validHost_def)



















subsection \<open>Idempotence\<close>




end
